theory Spec2Isabelle
  imports Complex_Main "HOL-Library.AList"
begin

section \<open>JavaScript index arithmetic used by the slideshow controllers\<close>

text \<open>
  The controllers keep \<open>currentIndex\<close> in a JavaScript number. The navigation code only
  ever adds or subtracts one and takes a remainder, so the values that occur are the
  integers and \<open>NaN\<close> (the remainder by a length of zero). Comparisons with \<open>NaN\<close> are
  false, including \<open>===\<close>.
\<close>

datatype index = NaN | Index int

fun idx_lt :: "index \<Rightarrow> index \<Rightarrow> bool" where
  "idx_lt (Index a) (Index b) = (a < b)"
| "idx_lt _ _ = False"

fun idx_ge :: "index \<Rightarrow> index \<Rightarrow> bool" where
  "idx_ge (Index a) (Index b) = (a \<ge> b)"
| "idx_ge _ _ = False"

fun idx_seq :: "index \<Rightarrow> index \<Rightarrow> bool" where
  "idx_seq (Index a) (Index b) = (a = b)"
| "idx_seq _ _ = False"

fun idx_add :: "index \<Rightarrow> index \<Rightarrow> index" where
  "idx_add (Index a) (Index b) = Index (a + b)"
| "idx_add _ _ = NaN"

fun idx_sub :: "index \<Rightarrow> index \<Rightarrow> index" where
  "idx_sub (Index a) (Index b) = Index (a - b)"
| "idx_sub _ _ = NaN"

text \<open>The \<open>%\<close> operator: the result takes the sign of the dividend, and a zero divisor
  gives \<open>NaN\<close>.\<close>

fun idx_mod :: "index \<Rightarrow> index \<Rightarrow> index" where
  "idx_mod (Index a) (Index b) =
     (if b = 0 then NaN else Index (sgn a * (\<bar>a\<bar> mod \<bar>b\<bar>)))"
| "idx_mod _ _ = NaN"

definition js_length :: "'a list \<Rightarrow> index" where
  "js_length xs = Index (int (length xs))"

text \<open>Reading \<open>xs[i]\<close>: \<open>undefined\<close> (here \<open>None\<close>) outside the list and at \<open>NaN\<close>.\<close>

fun js_nth :: "'a list \<Rightarrow> index \<Rightarrow> 'a option" where
  "js_nth xs NaN = None"
| "js_nth xs (Index i) = (if 0 \<le> i \<and> i < int (length xs) then Some (xs ! nat i) else None)"

section \<open>RealEstateSlideshow (slideshow.js): navigation\<close>

text \<open>
  The controller's fields. DOM elements are left out: rendering is not part of the state
  the navigation reads. \<open>autoAdvanceInterval\<close> holds the handle returned by
  \<open>setInterval\<close>; \<open>timersCreated\<close> counts the calls of \<open>setInterval\<close> so far, which
  makes each handle fresh and positive, hence truthy.

  \<open>displaySlide\<close> and \<open>goToSlide\<close> are \<open>async\<close>, but \<open>displaySlide\<close> contains no
  \<open>await\<close> and the continuation of \<open>goToSlide\<close> runs as a microtask before the next
  event is delivered, so one call made from an event handler runs to its end before the
  next one starts. Each operation is therefore one state transformer.
\<close>

record 'p slideshow =
  properties :: "'p list"
  currentIndex :: index
  isPlaying :: bool
  autoAdvanceInterval :: "nat option"
  isLoading :: bool
  timersCreated :: nat

definition autoAdvanceDelay :: nat where
  "autoAdvanceDelay = 8000"

definition displaySlide :: "'p slideshow \<Rightarrow> index \<Rightarrow> 'p slideshow" where
  "displaySlide s i =
     (if idx_lt i (Index 0) \<or> idx_ge i (js_length (properties s)) \<or> isLoading s then s
      else
        \<comment> \<open>the slide is rendered inside try/catch; both ways end with isLoading = false\<close>
        (s\<lparr>isLoading := True, currentIndex := i\<rparr>)\<lparr>isLoading := False\<rparr>)"

definition stopAutoAdvance :: "'p slideshow \<Rightarrow> 'p slideshow" where
  "stopAutoAdvance s =
     (case autoAdvanceInterval s of
        Some h \<Rightarrow> s\<lparr>autoAdvanceInterval := None\<rparr>
      | None \<Rightarrow> s)"

definition startAutoAdvance :: "'p slideshow \<Rightarrow> 'p slideshow" where
  "startAutoAdvance s =
     (if \<not> isPlaying s then s
      else (let s1 = stopAutoAdvance s
            in s1\<lparr>autoAdvanceInterval := Some (Suc (timersCreated s1)),
                  timersCreated := Suc (timersCreated s1)\<rparr>))"

definition resetAutoAdvance :: "'p slideshow \<Rightarrow> 'p slideshow" where
  "resetAutoAdvance s = (if isPlaying s then startAutoAdvance s else s)"

definition goToSlide :: "'p slideshow \<Rightarrow> index \<Rightarrow> 'p slideshow" where
  "goToSlide s i =
     (if idx_seq i (currentIndex s) \<or> isLoading s then s
      else (let s1 = displaySlide s i
            in \<comment> \<open>preloadNextSlide only creates an Image object\<close>
               if isPlaying s1 then resetAutoAdvance s1 else s1))"

definition previousSlide :: "'p slideshow \<Rightarrow> 'p slideshow" where
  "previousSlide s =
     goToSlide s (if idx_seq (currentIndex s) (Index 0)
                  then idx_sub (js_length (properties s)) (Index 1)
                  else idx_sub (currentIndex s) (Index 1))"

definition nextSlide :: "'p slideshow \<Rightarrow> 'p slideshow" where
  "nextSlide s =
     goToSlide s (idx_mod (idx_add (currentIndex s) (Index 1)) (js_length (properties s)))"

definition play :: "'p slideshow \<Rightarrow> 'p slideshow" where
  "play s = startAutoAdvance (s\<lparr>isPlaying := True\<rparr>)"

definition pause :: "'p slideshow \<Rightarrow> 'p slideshow" where
  "pause s = stopAutoAdvance (s\<lparr>isPlaying := False\<rparr>)"

definition togglePlayPause :: "'p slideshow \<Rightarrow> 'p slideshow" where
  "togglePlayPause s = (if isPlaying s then pause s else play s)"

text \<open>A navigation request, and a run of requests in the order they are delivered.\<close>

datatype nav = Next | Previous | Goto int

fun nav_step :: "'p slideshow \<Rightarrow> nav \<Rightarrow> 'p slideshow" where
  "nav_step s Next = nextSlide s"
| "nav_step s Previous = previousSlide s"
| "nav_step s (Goto i) = goToSlide s (Index i)"

definition nav_run :: "'p slideshow \<Rightarrow> nav list \<Rightarrow> 'p slideshow" where
  "nav_run s ops = foldl nav_step s ops"

definition valid_position :: "'p slideshow \<Rightarrow> bool" where
  "valid_position s =
     (case currentIndex s of
        NaN \<Rightarrow> False
      | Index i \<Rightarrow> 0 \<le> i \<and> i < int (length (properties s)))"

section \<open>PropertySlideshow (the script variant with messages): navigation and timers\<close>

text \<open>
  A slide of this variant is a plain object; the fields below are the ones the
  controller reads. \<open>displayTime\<close> is in milliseconds, and a value of zero is falsy.
\<close>

record item =
  isMessage :: bool
  isRental :: bool
  mainImage :: string
  backgroundColor :: string
  displayTime :: nat

text \<open>
  The browser's timers, as far as the controller's state depends on them: the repeating
  timer of \<open>startSlideshow\<close> and the one-shot timer of \<open>showMessage\<close> that advances the
  slide. Timers whose callbacks only touch the DOM (the image fade and the background
  reset) are left out. A timer carries its handle, the time it is due, its period when it
  repeats, and which callback it runs.
\<close>

datatype callback = IntervalTick | MessageTimeout

record timer =
  handle :: nat
  due :: nat
  period :: "nat option"
  action :: callback

record pslideshow =
  ps_properties :: "item list"
  ps_currentIndex :: index
  ps_isPlaying :: bool
  ps_intervalId :: "nat option"
  slideInterval :: nat
  clock :: nat
  pending :: "timer list"
  handles :: nat

datatype exn = TypeError | NetworkError | HttpError nat string | SyntaxError | Error string
  | ThrownUndefined

definition setInterval :: "pslideshow \<Rightarrow> callback \<Rightarrow> nat \<Rightarrow> nat \<times> pslideshow" where
  "setInterval s cb ms =
     (let h = Suc (handles s)
      in (h, s\<lparr>pending := pending s @ [\<lparr>handle = h, due = clock s + ms, period = Some ms, action = cb\<rparr>],
               handles := h\<rparr>))"

definition setTimeout :: "pslideshow \<Rightarrow> callback \<Rightarrow> nat \<Rightarrow> pslideshow" where
  "setTimeout s cb ms =
     (let h = Suc (handles s)
      in s\<lparr>pending := pending s @ [\<lparr>handle = h, due = clock s + ms, period = None, action = cb\<rparr>],
           handles := h\<rparr>)"

definition ps_clearInterval :: "pslideshow \<Rightarrow> pslideshow" where
  "ps_clearInterval s =
     (case ps_intervalId s of
        Some h \<Rightarrow> s\<lparr>pending := filter (\<lambda>t. handle t \<noteq> h) (pending s), ps_intervalId := None\<rparr>
      | None \<Rightarrow> s)"

definition startSlideshow :: "pslideshow \<Rightarrow> pslideshow" where
  "startSlideshow s =
     (let s1 = ps_clearInterval s
      in if ps_isPlaying s1
         then (case setInterval s1 IntervalTick (slideInterval s1) of
                 (h, s2) \<Rightarrow> s2\<lparr>ps_intervalId := Some h\<rparr>)
         else s1)"

definition pauseSlideshow :: "pslideshow \<Rightarrow> pslideshow" where
  "pauseSlideshow s = ps_clearInterval (s\<lparr>ps_isPlaying := False\<rparr>)"

definition resumeSlideshow :: "pslideshow \<Rightarrow> pslideshow" where
  "resumeSlideshow s = startSlideshow (s\<lparr>ps_isPlaying := True\<rparr>)"

definition showMessage :: "pslideshow \<Rightarrow> item \<Rightarrow> pslideshow" where
  "showMessage s m =
     (if displayTime m \<noteq> 0 \<and> ps_isPlaying s
      then setTimeout s MessageTimeout (displayTime m)
      else s)"

text \<open>\<open>updateDisplay\<close> reads \<open>property.isMessage\<close> of \<open>properties[currentIndex]\<close>; when
  that entry is \<open>undefined\<close> the read throws a TypeError.\<close>

definition updateDisplay :: "pslideshow \<Rightarrow> (exn \<times> pslideshow) + pslideshow" where
  "updateDisplay s =
     (case js_nth (ps_properties s) (ps_currentIndex s) of
        None \<Rightarrow> Inl (TypeError, s)
      | Some property \<Rightarrow>
          if isMessage property then Inr (showMessage s property)
          else Inr s)"

definition ps_goToSlide :: "pslideshow \<Rightarrow> index \<Rightarrow> (exn \<times> pslideshow) + pslideshow" where
  "ps_goToSlide s i =
     (case updateDisplay (s\<lparr>ps_currentIndex := i\<rparr>) of
        Inl e \<Rightarrow> Inl e
      | Inr s1 \<Rightarrow> Inr (startSlideshow s1))"

definition ps_nextSlide :: "pslideshow \<Rightarrow> (exn \<times> pslideshow) + pslideshow" where
  "ps_nextSlide s =
     ps_goToSlide s (idx_mod (idx_add (ps_currentIndex s) (Index 1)) (js_length (ps_properties s)))"

definition ps_previousSlide :: "pslideshow \<Rightarrow> (exn \<times> pslideshow) + pslideshow" where
  "ps_previousSlide s =
     ps_goToSlide s
       (idx_mod (idx_add (idx_sub (ps_currentIndex s) (Index 1)) (js_length (ps_properties s)))
                (js_length (ps_properties s)))"

text \<open>The state a call leaves behind, whether it returned or threw.\<close>

fun state_after :: "(exn \<times> pslideshow) + pslideshow \<Rightarrow> pslideshow" where
  "state_after (Inl (e, s)) = s"
| "state_after (Inr s) = s"

fun ps_nav_step :: "pslideshow \<Rightarrow> nav \<Rightarrow> pslideshow" where
  "ps_nav_step s Next = state_after (ps_nextSlide s)"
| "ps_nav_step s Previous = state_after (ps_previousSlide s)"
| "ps_nav_step s (Goto i) = state_after (ps_goToSlide s (Index i))"

definition ps_valid_position :: "pslideshow \<Rightarrow> bool" where
  "ps_valid_position s =
     (case ps_currentIndex s of
        NaN \<Rightarrow> False
      | Index i \<Rightarrow> 0 \<le> i \<and> i < int (length (ps_properties s)))"

text \<open>A navigation request that names a position of the sequence.\<close>

fun in_range :: "pslideshow \<Rightarrow> nav \<Rightarrow> bool" where
  "in_range s (Goto i) = (0 \<le> i \<and> i < int (length (ps_properties s)))"
| "in_range s _ = True"




definition ps_nav_run :: "pslideshow \<Rightarrow> nav list \<Rightarrow> pslideshow" where
  "ps_nav_run s ops = foldl ps_nav_step s ops"

text \<open>Concrete controllers used to evaluate the operations: three listings, the first
  one shown, playing, no timer pending yet.\<close>

definition listing_item :: item where
  "listing_item = \<lparr>isMessage = False, isRental = False, mainImage = ''a.jpg'',
                    backgroundColor = [], displayTime = 0\<rparr>"

definition message_item :: "nat \<Rightarrow> item" where
  "message_item ms = \<lparr>isMessage = True, isRental = False, mainImage = [],
                       backgroundColor = [], displayTime = ms\<rparr>"

definition ps_example :: "item list \<Rightarrow> pslideshow" where
  "ps_example xs = \<lparr>ps_properties = xs, ps_currentIndex = Index 0, ps_isPlaying = True,
                     ps_intervalId = None, slideInterval = 8000, clock = 0, pending = [],
                     handles = 0\<rparr>"

definition rs_example :: "'p list \<Rightarrow> 'p slideshow" where
  "rs_example xs = \<lparr>properties = xs, currentIndex = Index 0, isPlaying = True,
                     autoAdvanceInterval = None, isLoading = False, timersCreated = 0\<rparr>"





section \<open>JavaScript values read from the feed\<close>

text \<open>
  The scalar values a raw record can hold, with the conversions the API layer applies to
  them. Numbers are exact rationals next to \<open>NaN\<close> and the two infinities: the rounding
  of IEEE doubles is not modelled, and a number is printed in plain decimal notation
  (JavaScript switches to exponent notation from \<open>1e21\<close> on and below \<open>1e-6\<close>).
  Strings are byte strings; only the ASCII white space characters are treated as white
  space.
\<close>

datatype jsnum = Nan | PosInf | NegInf | Fin rat

datatype jsval = Undefined | Null | Bool bool | Num jsnum | Str string

fun truthy :: "jsval \<Rightarrow> bool" where
  "truthy Undefined = False"
| "truthy Null = False"
| "truthy (Bool b) = b"
| "truthy (Num Nan) = False"
| "truthy (Num (Fin r)) = (r \<noteq> 0)"
| "truthy (Num _) = True"
| "truthy (Str s) = (s \<noteq> [])"

definition js_or :: "jsval \<Rightarrow> jsval \<Rightarrow> jsval" where
  "js_or a b = (if truthy a then a else b)"

text \<open>White space, digits in a radix, and the value of a digit string.\<close>

definition is_space :: "char \<Rightarrow> bool" where
  "is_space c = (c \<in> set [CHR 0x09, CHR 0x0A, CHR 0x0B, CHR 0x0C, CHR 0x0D, CHR '' ''])"

fun pos :: "char \<Rightarrow> string \<Rightarrow> nat option" where
  "pos c [] = None"
| "pos c (x # xs) = (if c = x then Some 0 else map_option Suc (pos c xs))"

definition digit_of :: "nat \<Rightarrow> char \<Rightarrow> nat option" where
  "digit_of radix c =
     (case pos c (take radix ''0123456789abcdef'') of
        Some d \<Rightarrow> Some d
      | None \<Rightarrow> pos c (take radix ''0123456789ABCDEF''))"

definition is_digit :: "nat \<Rightarrow> char \<Rightarrow> bool" where
  "is_digit radix c = (digit_of radix c \<noteq> None)"

definition digits_value :: "nat \<Rightarrow> string \<Rightarrow> int" where
  "digits_value radix ds =
     foldl (\<lambda>a c. a * int radix + (case digit_of radix c of Some d \<Rightarrow> int d | None \<Rightarrow> 0)) 0 ds"

fun sign :: "string \<Rightarrow> bool \<times> string" where
  "sign (c # cs) = (if c = CHR ''-'' then (True, cs) else if c = CHR ''+'' then (False, cs) else (False, c # cs))"
| "sign [] = (False, [])"

definition signed :: "bool \<Rightarrow> rat \<Rightarrow> jsnum" where
  "signed neg r = Fin (if neg then - r else r)"

definition has_prefix :: "string \<Rightarrow> string \<Rightarrow> bool" where
  "has_prefix p s = (take (length p) s = p)"

text \<open>\<open>parseInt\<close> on a string: leading white space, a sign, a \<open>0x\<close> prefix, then the
  longest run of digits; \<open>NaN\<close> when that run is empty.\<close>

definition parseInt_string :: "string \<Rightarrow> jsnum" where
  "parseInt_string s =
     (case sign (dropWhile is_space s) of
        (neg, s1) \<Rightarrow>
          (let hex = has_prefix ''0x'' s1 \<or> has_prefix ''0X'' s1;
               radix = (if hex then 16 else 10);
               s2 = (if hex then drop 2 s1 else s1);
               ds = takeWhile (is_digit radix) s2
           in if ds = [] then Nan else signed neg (of_int (digits_value radix ds))))"

text \<open>The longest prefix that is a decimal literal (sign, \<open>Infinity\<close>, digits with an
  optional fraction and exponent), with its value and the rest of the string. \<open>parseFloat\<close>
  ignores the rest; \<open>Number\<close> accepts the literal only when nothing but white space
  surrounds it, reads the empty string as 0 and also accepts \<open>0x\<close>, \<open>0o\<close> and
  \<open>0b\<close> literals.\<close>

definition scan_exponent :: "string \<Rightarrow> int \<times> string" where
  "scan_exponent s =
     (case s of
        [] \<Rightarrow> (0, s)
      | c # t \<Rightarrow>
          if c = CHR ''e'' \<or> c = CHR ''E'' then
            (case sign t of
               (neg, t1) \<Rightarrow>
                 (let ds = takeWhile (is_digit 10) t1
                  in if ds = [] then (0, s)
                     else ((if neg then - digits_value 10 ds else digits_value 10 ds),
                           dropWhile (is_digit 10) t1)))
          else (0, s))"

definition scale10 :: "rat \<Rightarrow> int \<Rightarrow> rat" where
  "scale10 r e = (if 0 \<le> e then r * 10 ^ nat e else r / 10 ^ nat (- e))"

definition scan_decimal :: "string \<Rightarrow> (jsnum \<times> string) option" where
  "scan_decimal s =
     (case sign s of
        (neg, s1) \<Rightarrow>
          if has_prefix ''Infinity'' s1 then Some (if neg then NegInf else PosInf, drop 8 s1)
          else
            (let ip = takeWhile (is_digit 10) s1;
                 r1 = dropWhile (is_digit 10) s1;
                 dot = (case r1 of c # t \<Rightarrow> c = CHR ''.'' | [] \<Rightarrow> False);
                 fp = (if dot then takeWhile (is_digit 10) (tl r1) else []);
                 r2 = (if dot then dropWhile (is_digit 10) (tl r1) else r1)
             in if ip = [] \<and> fp = [] then None
                else (case scan_exponent r2 of
                        (e, r3) \<Rightarrow>
                          Some (signed neg
                                  (scale10 (of_int (digits_value 10 ip)
                                            + of_int (digits_value 10 fp) / 10 ^ length fp) e),
                                r3))))"

definition parseFloat_string :: "string \<Rightarrow> jsnum" where
  "parseFloat_string s =
     (case scan_decimal (dropWhile is_space s) of
        None \<Rightarrow> Nan
      | Some (n, rest) \<Rightarrow> n)"

definition trim :: "string \<Rightarrow> string" where
  "trim s = rev (dropWhile is_space (rev (dropWhile is_space s)))"

definition radix_literal :: "string \<Rightarrow> jsnum option" where
  "radix_literal s =
     (let p = take 2 s; ds = drop 2 s;
          radix = (if p = ''0x'' \<or> p = ''0X'' then 16
                   else if p = ''0o'' \<or> p = ''0O'' then 8
                   else if p = ''0b'' \<or> p = ''0B'' then 2 else 0)
      in if radix \<noteq> 0 \<and> ds \<noteq> [] \<and> list_all (is_digit radix) ds
         then Some (Fin (of_int (digits_value radix ds))) else None)"

definition string_to_number :: "string \<Rightarrow> jsnum" where
  "string_to_number s =
     (let t = trim s
      in if t = [] then Fin 0
         else (case radix_literal t of
                 Some n \<Rightarrow> n
               | None \<Rightarrow>
                   (case scan_decimal t of
                      Some (n, []) \<Rightarrow> n
                    | _ \<Rightarrow> Nan)))"

fun to_number :: "jsval \<Rightarrow> jsnum" where
  "to_number Undefined = Nan"
| "to_number Null = Fin 0"
| "to_number (Bool b) = Fin (if b then 1 else 0)"
| "to_number (Num n) = n"
| "to_number (Str s) = string_to_number s"

definition isNaN :: "jsval \<Rightarrow> bool" where
  "isNaN v = (to_number v = Nan)"

text \<open>Printing numbers, and \<open>ToString\<close>.\<close>

function digits_of_int :: "int \<Rightarrow> string" where
  "digits_of_int n =
     (if n < 10 then [''0123456789'' ! nat n]
      else digits_of_int (n div 10) @ [''0123456789'' ! nat (n mod 10)])"
  by pat_completeness auto
termination
  by (relation "measure nat") auto

declare digits_of_int.simps [simp del]

fun frac_digits :: "nat \<Rightarrow> rat \<Rightarrow> string" where
  "frac_digits 0 r = []"
| "frac_digits (Suc k) r =
     (if r = 0 then []
      else (''0123456789'' ! nat \<lfloor>r * 10\<rfloor>) # frac_digits k (r * 10 - of_int \<lfloor>r * 10\<rfloor>))"

definition rat_to_string :: "rat \<Rightarrow> string" where
  "rat_to_string r =
     (let a = \<bar>r\<bar>; ip = \<lfloor>a\<rfloor>; fp = a - of_int \<lfloor>a\<rfloor>
      in (if r < 0 then ''-'' else [])
         @ digits_of_int ip
         @ (if fp = 0 then [] else ''.'' @ frac_digits 20 fp))"

fun num_to_string :: "jsnum \<Rightarrow> string" where
  "num_to_string Nan = ''NaN''"
| "num_to_string PosInf = ''Infinity''"
| "num_to_string NegInf = ''-Infinity''"
| "num_to_string (Fin r) = rat_to_string r"

fun to_string :: "jsval \<Rightarrow> string" where
  "to_string Undefined = ''undefined''"
| "to_string Null = ''null''"
| "to_string (Bool b) = (if b then ''true'' else ''false'')"
| "to_string (Num n) = num_to_string n"
| "to_string (Str s) = s"

definition parseInt :: "jsval \<Rightarrow> jsnum" where
  "parseInt v = parseInt_string (to_string v)"

definition parseFloat :: "jsval \<Rightarrow> jsnum" where
  "parseFloat v = parseFloat_string (to_string v)"

text \<open>\<open>Intl.NumberFormat('en-US', {style: 'currency', currency: 'USD',
  maximumFractionDigits: 0}).format\<close>: rounded half away from zero to a whole number,
  grouped in thousands, with the dollar sign after the minus sign.\<close>

fun group3 :: "string \<Rightarrow> string" where
  "group3 (a # b # c # d # rest) = a # b # c # CHR '','' # group3 (d # rest)"
| "group3 ds = ds"

definition grouped :: "int \<Rightarrow> string" where
  "grouped n = rev (group3 (rev (digits_of_int n)))"

definition infinity_sign :: string where
  "infinity_sign = [CHR 0xE2, CHR 0x88, CHR 0x9E]"

fun format_currency :: "jsnum \<Rightarrow> string" where
  "format_currency Nan = ''$NaN''"
| "format_currency PosInf = ''$'' @ infinity_sign"
| "format_currency NegInf = ''-$'' @ infinity_sign"
| "format_currency (Fin r) =
     (if r < 0 then ''-$'' else ''$'') @ grouped \<lfloor>\<bar>r\<bar> + 1 / 2\<rfloor>"

definition price_on_request :: string where
  "price_on_request = ''Price on request''"

definition formatPrice :: "jsval \<Rightarrow> string" where
  "formatPrice price =
     (if \<not> truthy price \<or> isNaN price then price_on_request
      else format_currency (parseFloat price))"

section \<open>RealEstateAPI (api.js): normalization\<close>

text \<open>
  A raw record is a JSON object; reading a field that is not there gives
  \<open>undefined\<close>. The normalized listing keeps the source's field names, except
  \<open>id\<close>, \<open>zip\<close> and \<open>type\<close>, which are taken in HOL.
\<close>

type_synonym raw = "(string \<times> jsval) list"

definition field :: "raw \<Rightarrow> string \<Rightarrow> jsval" where
  "field r k = (case map_of r k of Some v \<Rightarrow> v | None \<Rightarrow> Undefined)"

record image =
  url :: jsval
  thumbnail :: jsval
  alt :: jsval
  caption :: jsval

record location =
  address :: jsval
  city :: jsval
  state :: jsval
  zip_code :: jsval
  country :: jsval

record features =
  bedrooms :: jsnum
  bathrooms :: jsnum
  area :: jsnum
  ptype :: jsval
  yearBuilt :: jsnum
  garage :: jsnum

record listing =
  listing_id :: jsval
  title :: jsval
  price :: string
  location :: location
  features :: features
  description :: jsval
  status :: jsval
  images :: "image list"
  createdAt :: jsval
  updatedAt :: jsval

text \<open>
  \<open>normalizeProperty\<close> reads \<open>this.formatPrice\<close>, so it depends on its receiver.
  Called as a method it has the API instance; passed as a bare callback, as in
  \<open>properties.map(this.normalizeProperty)\<close>, it runs with \<open>this\<close> undefined (class
  bodies are strict code) and the read of \<open>this.formatPrice\<close> throws a TypeError.
  \<open>now\<close> is the value of \<open>new Date().toISOString()\<close>.
\<close>

datatype receiver = UndefinedThis | ApiInstance

definition normalizeProperty :: "receiver \<Rightarrow> string \<Rightarrow> raw \<Rightarrow> exn + listing" where
  "normalizeProperty this now property =
     (case this of
        UndefinedThis \<Rightarrow> Inl TypeError
      | ApiInstance \<Rightarrow> Inr
         \<lparr>listing_id = js_or (field property ''id'') (field property ''property_id''),
          title = js_or (field property ''title'')
                    (js_or (field property ''name'') (Str ''Untitled Property'')),
          price = formatPrice (field property ''price''),
          location =
            \<lparr>address = js_or (field property ''address'') (Str []),
             city = js_or (field property ''city'') (Str []),
             state = js_or (field property ''state'') (Str []),
             zip_code = js_or (field property ''zip'')
                          (js_or (field property ''postal_code'') (Str [])),
             country = js_or (field property ''country'') (Str ''US'')\<rparr>,
          features =
            \<lparr>bedrooms = parseInt (js_or (field property ''bedrooms'')
                                   (js_or (field property ''beds'') (Num (Fin 0)))),
             bathrooms = parseFloat (js_or (field property ''bathrooms'')
                                      (js_or (field property ''baths'') (Num (Fin 0)))),
             area = parseInt (js_or (field property ''area'')
                               (js_or (field property ''square_feet'') (Num (Fin 0)))),
             ptype = js_or (field property ''type'')
                       (js_or (field property ''property_type'') (Str ''Unknown'')),
             yearBuilt = parseInt (js_or (field property ''year_built'')
                                    (js_or (field property ''built_year'') (Num (Fin 0)))),
             garage = parseInt (js_or (field property ''garage_spaces'')
                                 (js_or (field property ''garage'') (Num (Fin 0))))\<rparr>,
          description = js_or (field property ''description'') (Str []),
          status = js_or (field property ''status'') (Str ''available''),
          images = [],
          createdAt = js_or (field property ''created_at'')
                        (js_or (field property ''date_added'') (Str now)),
          updatedAt = js_or (field property ''updated_at'')
                        (js_or (field property ''date_modified'') (Str now))\<rparr>)"

text \<open>A number that is not negative; \<open>NaN\<close> is not.\<close>

fun is_nonneg :: "jsnum \<Rightarrow> bool" where
  "is_nonneg (Fin r) = (0 \<le> r)"
| "is_nonneg PosInf = True"
| "is_nonneg _ = False"

text \<open>Raw records used to evaluate the normalization: the record of the end-to-end
  scenario, one that uses only the alternate key names, and one that uses the primary
  key names.\<close>

definition scenario_record :: raw where
  "scenario_record = [(''id'', Num (Fin 1)), (''price'', Num (Fin 0)), (''bedrooms'', Str ''3'')]"

definition alternate_record :: raw where
  "alternate_record = [(''beds'', Num (Fin 2)), (''baths'', Str ''1.5''),
     (''square_feet'', Num (Fin 90)), (''built_year'', Str ''1999''), (''garage'', Num (Fin 1))]"

definition primary_record :: raw where
  "primary_record = [(''bathrooms'', Num (Fin 2)), (''area'', Str ''120''),
     (''year_built'', Num (Fin 2001)), (''garage_spaces'', Str ''2'')]"

section \<open>RealEstateAPI (api.js): network, retry and cache\<close>

text \<open>
  What \<open>fetch\<close> can give back: the promise rejects (a transport failure), or it
  resolves to a response with a status, a status text and a body. \<open>response.json()\<close>
  throws on a body that is not JSON; otherwise the body is \<open>null\<close>, an array of
  objects, one object, or a scalar.
\<close>

datatype payload = NotJson | JNull | JScalar jsval | JArray "raw list" | JObject raw

datatype response = Rejected | Response nat string payload

fun ok :: "response \<Rightarrow> bool" where
  "ok Rejected = False"
| "ok (Response st txt body) = (200 \<le> st \<and> st \<le> 299)"

text \<open>The origin: the response to the request with the given sequence number (counted
  from 0 over all requests of the API instance) and URL.\<close>

type_synonym network = "nat \<Rightarrow> string \<Rightarrow> response"

text \<open>What the cache holds. Every stored array or object carries the number of the
  allocation that created it, so that two results are the same object exactly when these
  numbers agree.\<close>

datatype cached = Listings "listing list" | Single listing | Images "image list"

text \<open>
  The API instance. \<open>requests\<close> and \<open>delays\<close> record the effects: the URLs passed
  to \<open>fetch\<close> and the arguments of \<open>delay\<close>, in order. \<open>allocated\<close> counts the result
  objects created so far.
\<close>

record api =
  baseUrl :: string
  cache :: "string \<rightharpoonup> nat \<times> cached"
  retryAttempts :: nat
  retryDelay :: nat
  requests :: "string list"
  delays :: "nat list"
  allocated :: nat

definition new_api :: api where
  "new_api = \<lparr>baseUrl = ''/api'', cache = Map.empty, retryAttempts = 3, retryDelay = 1000,
              requests = [], delays = [], allocated = 0\<rparr>"

text \<open>One attempt of \<open>fetchWithRetry\<close>: the request, then the test of \<open>response.ok\<close>.\<close>

definition attempt_once :: "network \<Rightarrow> string \<Rightarrow> api \<Rightarrow> (exn + response) \<times> api" where
  "attempt_once net u a =
     (let r = net (length (requests a)) u;
          a1 = a\<lparr>requests := requests a @ [u]\<rparr>
      in case r of
           Rejected \<Rightarrow> (Inl NetworkError, a1)
         | Response st txt body \<Rightarrow>
             if ok r then (Inr r, a1) else (Inl (HttpError st txt), a1))"

function attempt_loop ::
  "network \<Rightarrow> string \<Rightarrow> nat \<Rightarrow> exn \<Rightarrow> api \<Rightarrow> (exn + response) \<times> api" where
  "attempt_loop net u attempt lastError a =
     (if attempt \<le> retryAttempts a then
        (case attempt_once net u a of
           (Inr r, a1) \<Rightarrow> (Inr r, a1)
         | (Inl e, a1) \<Rightarrow>
             attempt_loop net u (Suc attempt) e
               (if attempt < retryAttempts a1
                then a1\<lparr>delays := delays a1 @ [retryDelay a1 * attempt]\<rparr>
                else a1))
      else (Inl lastError, a))"
  by pat_completeness auto
termination
  by (relation "measure (\<lambda>(net, u, attempt, e, a). Suc (retryAttempts a) - attempt)")
     (auto simp: attempt_once_def Let_def split: response.splits if_splits)

declare attempt_loop.simps [simp del]

definition fetchWithRetry :: "network \<Rightarrow> string \<Rightarrow> api \<Rightarrow> (exn + response) \<times> api" where
  "fetchWithRetry net u a = attempt_loop net u 1 ThrownUndefined a"

text \<open>
  The query parameters of \<open>fetchProperties\<close>: the object literal
  \<open>{limit: options.limit || 50, offset: options.offset || 0, ...options}\<close>, whose
  properties keep their insertion order (property names that are array indices, which
  JavaScript orders first, are not modelled), turned into name/value strings by
  \<open>URLSearchParams\<close> and serialized as \<open>application/x-www-form-urlencoded\<close>.
\<close>

definition build_params :: "raw \<Rightarrow> (string \<times> string) list" where
  "build_params options =
     map (\<lambda>(k, v). (k, to_string v))
       (fold (\<lambda>(k, v) obj. AList.update k v obj) options
          [(''limit'', js_or (field options ''limit'') (Num (Fin 50))),
           (''offset'', js_or (field options ''offset'') (Num (Fin 0)))])"

definition unreserved :: "char \<Rightarrow> bool" where
  "unreserved c =
     (c \<in> set ''ABCDEFGHIJKLMNOPQRSTUVWXYZabcdefghijklmnopqrstuvwxyz0123456789*-._'')"

definition urlencode_char :: "char \<Rightarrow> string" where
  "urlencode_char c =
     (if unreserved c then [c]
      else if c = CHR '' '' then ''+''
      else [CHR ''%'', ''0123456789ABCDEF'' ! (of_char c div 16),
            ''0123456789ABCDEF'' ! (of_char c mod 16)])"

definition urlencode :: "string \<Rightarrow> string" where
  "urlencode s = concat (map urlencode_char s)"

definition param_string :: "string \<times> string \<Rightarrow> string" where
  "param_string p = urlencode (fst p) @ ''='' @ urlencode (snd p)"

fun serialize :: "(string \<times> string) list \<Rightarrow> string" where
  "serialize [] = []"
| "serialize [p] = param_string p"
| "serialize (p # ps) = param_string p @ ''&'' @ serialize ps"

definition cacheKey :: "raw \<Rightarrow> string" where
  "cacheKey options = ''properties_'' @ serialize (build_params options)"

definition request_url :: "api \<Rightarrow> raw \<Rightarrow> string" where
  "request_url a options = baseUrl a @ ''/properties?'' @ serialize (build_params options)"

text \<open>\<open>array.map(f)\<close> with a callback that may throw: the first exception ends it.\<close>

fun map_throwing :: "('a \<Rightarrow> exn + 'b) \<Rightarrow> 'a list \<Rightarrow> exn + 'b list" where
  "map_throwing f [] = Inr []"
| "map_throwing f (x # xs) =
     (case f x of
        Inl e \<Rightarrow> Inl e
      | Inr y \<Rightarrow> (case map_throwing f xs of Inl e \<Rightarrow> Inl e | Inr ys \<Rightarrow> Inr (y # ys)))"

definition mock_listing ::
  "rat \<Rightarrow> string \<Rightarrow> string \<Rightarrow> string \<Rightarrow> string \<Rightarrow> string \<Rightarrow> string \<Rightarrow> rat \<Rightarrow> rat \<Rightarrow> rat
   \<Rightarrow> string \<Rightarrow> rat \<Rightarrow> rat \<Rightarrow> string \<Rightarrow> string \<Rightarrow> listing" where
  "mock_listing i t p ad ci st zp bd ba ar ty yb ga de now =
     \<lparr>listing_id = Num (Fin i), title = Str t, price = p,
      location = \<lparr>address = Str ad, city = Str ci, state = Str st, zip_code = Str zp,
                  country = Str ''US''\<rparr>,
      features = \<lparr>bedrooms = Fin bd, bathrooms = Fin ba, area = Fin ar, ptype = Str ty,
                  yearBuilt = Fin yb, garage = Fin ga\<rparr>,
      description = Str de, status = Str ''available'', images = [],
      createdAt = Str now, updatedAt = Str now\<rparr>"

definition getMockProperties :: "string \<Rightarrow> listing list" where
  "getMockProperties now =
     [mock_listing 1 ''Luxury Waterfront Villa'' ''$2,850,000'' ''123 Ocean Drive''
        ''Miami Beach'' ''FL'' ''33139'' 5 (9 / 2) 4200 ''Villa'' 2018 3
        ''Stunning waterfront villa with panoramic ocean views, private beach access, and state-of-the-art amenities. This architectural masterpiece features floor-to-ceiling windows, an infinity pool, and a gourmet kitchen perfect for entertaining.''
        now,
      mock_listing 2 ''Modern Downtown Penthouse'' ''$1,650,000'' ''456 High Street''
        ''Seattle'' ''WA'' ''98101'' 3 3 2800 ''Penthouse'' 2020 2
        ''Sophisticated penthouse in the heart of downtown with breathtaking city skyline views. Features include a private rooftop terrace, smart home technology, and premium finishes throughout.''
        now,
      mock_listing 3 ''Charming Victorian Home'' ''$875,000'' ''789 Elm Avenue''
        ''San Francisco'' ''CA'' ''94102'' 4 2 2100 ''Victorian'' 1895 1
        ''Beautifully restored Victorian home with original hardwood floors, ornate moldings, and modern updates. Located in a quiet neighborhood with tree-lined streets and excellent schools nearby.''
        now]"

definition unable_to_load :: exn where
  "unable_to_load = Error ''Unable to load properties. Please check your connection.''"

text \<open>
  \<open>fetchProperties\<close>. A cached entry is returned as it is. Otherwise the try block runs:
  the request with retry, \<open>response.json()\<close>, and \<open>properties.map(this.normalizeProperty)\<close>,
  which passes \<open>normalizeProperty\<close> without its receiver and needs the body to be an
  array; on success the new array is stored and returned. Any exception of the try block
  ends in the catch block: mock data unless \<open>options.useMockData === false\<close>, else a
  new Error.
\<close>

definition decode_properties :: "string \<Rightarrow> payload \<Rightarrow> exn + listing list" where
  "decode_properties now body =
     (case body of
        NotJson \<Rightarrow> Inl SyntaxError
      | JArray xs \<Rightarrow> map_throwing (normalizeProperty UndefinedThis now) xs
      | _ \<Rightarrow> Inl TypeError)"

definition body_of :: "response \<Rightarrow> payload" where
  "body_of r = (case r of Rejected \<Rightarrow> NotJson | Response st txt body \<Rightarrow> body)"

definition fetchProperties ::
  "network \<Rightarrow> string \<Rightarrow> raw \<Rightarrow> api \<Rightarrow> (exn + nat \<times> cached) \<times> api" where
  "fetchProperties net now options a =
     (case cache a (cacheKey options) of
        Some v \<Rightarrow> (Inr v, a)
      | None \<Rightarrow>
          (case fetchWithRetry net (request_url a options) a of
             (res, a1) \<Rightarrow>
               (case (case res of Inl e \<Rightarrow> Inl e
                              | Inr r \<Rightarrow> decode_properties now (body_of r)) of
                  Inr normalizedProperties \<Rightarrow>
                    (let v = (Suc (allocated a1), Listings normalizedProperties)
                     in (Inr v, a1\<lparr>cache := (cache a1)(cacheKey options \<mapsto> v),
                                    allocated := Suc (allocated a1)\<rparr>))
                | Inl error \<Rightarrow>
                    if field options ''useMockData'' \<noteq> Bool False
                    then (Inr (Suc (allocated a1), Listings (getMockProperties now)),
                          a1\<lparr>allocated := Suc (allocated a1)\<rparr>)
                    else (Inl unable_to_load, a1))))"

text \<open>\<open>fetchProperty\<close>: the same cache test; the record is normalized with the API
  instance as receiver; an exception is logged and thrown again.\<close>

definition decode_property :: "string \<Rightarrow> payload \<Rightarrow> exn + listing" where
  "decode_property now body =
     (case body of
        NotJson \<Rightarrow> Inl SyntaxError
      | JNull \<Rightarrow> Inl TypeError
      | JObject r \<Rightarrow> normalizeProperty ApiInstance now r
      | _ \<Rightarrow> normalizeProperty ApiInstance now [])"

definition fetchProperty ::
  "network \<Rightarrow> string \<Rightarrow> jsval \<Rightarrow> api \<Rightarrow> (exn + nat \<times> cached) \<times> api" where
  "fetchProperty net now ident a =
     (case cache a (''property_'' @ to_string ident) of
        Some v \<Rightarrow> (Inr v, a)
      | None \<Rightarrow>
          (case fetchWithRetry net (baseUrl a @ ''/properties/'' @ to_string ident) a of
             (res, a1) \<Rightarrow>
               (case (case res of Inl e \<Rightarrow> Inl e
                              | Inr r \<Rightarrow> decode_property now (body_of r)) of
                  Inr normalizedProperty \<Rightarrow>
                    (let v = (Suc (allocated a1), Single normalizedProperty)
                     in (Inr v, a1\<lparr>cache := (cache a1)(''property_'' @ to_string ident \<mapsto> v),
                                    allocated := Suc (allocated a1)\<rparr>))
                | Inl error \<Rightarrow> (Inl error, a1))))"

text \<open>\<open>fetchPropertyImages\<close>: on any exception a one-element list with the placeholder
  image, which is not stored.\<close>

definition getPlaceholderImage :: string where
  "getPlaceholderImage = ''data:image/svg+xml;base64,PHN2ZyB3aWR0aD0iNDAwIiBoZWlnaHQ9IjMwMCIgeG1sbnM9Imh0dHA6Ly93d3cudzMub3JnLzIwMDAvc3ZnIj4KICA8cmVjdCB3aWR0aD0iNDAwIiBoZWlnaHQ9IjMwMCIgZmlsbD0iIzMzMyIvPgogIDx0ZXh0IHg9IjUwJSIgeT0iNTAlIiBmb250LWZhbWlseT0iQXJpYWwsIHNhbnMtc2VyaWYiIGZvbnQtc2l6ZT0iMThweCIgZmlsbD0iIzk5OSIgdGV4dC1hbmNob3I9Im1pZGRsZSIgZHk9Ii4zZW0iPk5vIEltYWdlIEF2YWlsYWJsZTwvdGV4dD4KPC9zdmc+''"

definition placeholder_images :: "image list" where
  "placeholder_images =
     [\<lparr>url = Str getPlaceholderImage, thumbnail = Str getPlaceholderImage,
       alt = Str ''Property image not available'', caption = Str []\<rparr>]"

definition validate_image :: "jsval \<Rightarrow> raw \<Rightarrow> image" where
  "validate_image propertyId img =
     \<lparr>url = field img ''url'',
      thumbnail = js_or (field img ''thumbnail'') (field img ''url''),
      alt = js_or (field img ''alt'') (Str (''Property '' @ to_string propertyId @ '' image'')),
      caption = js_or (field img ''caption'') (Str [])\<rparr>"

definition decode_images :: "jsval \<Rightarrow> payload \<Rightarrow> exn + image list" where
  "decode_images propertyId body =
     (case body of
        NotJson \<Rightarrow> Inl SyntaxError
      | JArray xs \<Rightarrow> Inr (map (validate_image propertyId) xs)
      | _ \<Rightarrow> Inl TypeError)"

definition fetchPropertyImages ::
  "network \<Rightarrow> jsval \<Rightarrow> api \<Rightarrow> (nat \<times> cached) \<times> api" where
  "fetchPropertyImages net propertyId a =
     (case cache a (''images_'' @ to_string propertyId) of
        Some v \<Rightarrow> (v, a)
      | None \<Rightarrow>
          (case fetchWithRetry net (baseUrl a @ ''/properties/'' @ to_string propertyId @ ''/images'') a of
             (res, a1) \<Rightarrow>
               (case (case res of Inl e \<Rightarrow> Inl e
                              | Inr r \<Rightarrow> decode_images propertyId (body_of r)) of
                  Inr validatedImages \<Rightarrow>
                    (let v = (Suc (allocated a1), Images validatedImages)
                     in (v, a1\<lparr>cache := (cache a1)(''images_'' @ to_string propertyId \<mapsto> v),
                                allocated := Suc (allocated a1)\<rparr>))
                | Inl error \<Rightarrow>
                    ((Suc (allocated a1), Images placeholder_images),
                     a1\<lparr>allocated := Suc (allocated a1)\<rparr>))))"

definition clearCache :: "api \<Rightarrow> api" where
  "clearCache a = a\<lparr>cache := Map.empty\<rparr>"

text \<open>The error a failed attempt leaves in \<open>lastError\<close>.\<close>

fun error_of :: "response \<Rightarrow> exn" where
  "error_of Rejected = NetworkError"
| "error_of (Response st txt body) = HttpError st txt"

text \<open>An origin whose first two requests fail in transport and whose later requests are
  answered with status 503; and one that is never reached.\<close>

definition failing_origin :: network where
  "failing_origin k u = (if k < 2 then Rejected else Response 503 ''Service Unavailable'' NotJson)"

definition unreachable_origin :: network where
  "unreachable_origin k u = Rejected"

text \<open>The origin never answers a request for the URL with a 2xx status.\<close>

definition unreachable :: "network \<Rightarrow> string \<Rightarrow> bool" where
  "unreachable net u = (\<forall>k. \<not> ok (net k u))"


text \<open>The object literal of \<open>fetchProperties\<close> before it is turned into strings; whether
  \<open>useMockData\<close> is absent or a boolean; and the number of characters a property
  contributes to the query string together with its separator.\<close>

definition params_object :: "raw \<Rightarrow> raw" where
  "params_object options =
     fold (\<lambda>(k, v) obj. AList.update k v obj) options
       [(''limit'', js_or (field options ''limit'') (Num (Fin 50))),
        (''offset'', js_or (field options ''offset'') (Num (Fin 0)))]"

definition boolean_flag :: "raw \<Rightarrow> bool" where
  "boolean_flag options =
     (case map_of options ''useMockData'' of
        None \<Rightarrow> True
      | Some v \<Rightarrow> (case v of Bool b \<Rightarrow> True | _ \<Rightarrow> False))"

definition entry_length :: "string \<times> jsval \<Rightarrow> nat" where
  "entry_length p = Suc (length (param_string (fst p, to_string (snd p))))"

section \<open>RealEstateSlideshow (slideshow.js): refresh\<close>







text \<open>An origin that answers every request with status 200 and the array holding the
  record of the end-to-end scenario.\<close>

definition listing_origin :: network where
  "listing_origin k u = Response 200 ''OK'' (JArray [scenario_record])"

text \<open>Two option objects that differ only in \<open>useMockData\<close>.\<close>

definition sold_options :: raw where
  "sold_options = [(''status'', Str ''sold'')]"

definition sold_options_no_mock :: raw where
  "sold_options_no_mock = [(''status'', Str ''sold''), (''useMockData'', Bool False)]"



section \<open>Verified properties: navigation\<close>

lemma goToSlide_properties: "properties (goToSlide s i) = properties s"
  by (simp add: goToSlide_def displaySlide_def resetAutoAdvance_def startAutoAdvance_def
      stopAutoAdvance_def Let_def split: option.splits)

lemma goToSlide_valid:
  "valid_position s \<Longrightarrow> valid_position (goToSlide s (Index i))"
  by (auto simp: goToSlide_def displaySlide_def resetAutoAdvance_def startAutoAdvance_def
      stopAutoAdvance_def Let_def valid_position_def js_length_def split: option.splits index.splits)

lemma nav_step_valid: "valid_position s \<Longrightarrow> valid_position (nav_step s a)"
proof (cases a)
  case Next
  assume v: "valid_position s"
  then obtain i where i: "currentIndex s = Index i" "0 \<le> i" "i < int (length (properties s))"
    by (auto simp: valid_position_def split: index.splits)
  then have "idx_mod (idx_add (currentIndex s) (Index 1)) (js_length (properties s))
      = Index ((i + 1) mod int (length (properties s)))"
    by (auto simp: js_length_def sgn_if)
  with v Next show ?thesis by (simp add: nextSlide_def goToSlide_valid)
next
  case Previous
  assume v: "valid_position s"
  then obtain i where i: "currentIndex s = Index i" "0 \<le> i" "i < int (length (properties s))"
    by (auto simp: valid_position_def split: index.splits)
  with v Previous show ?thesis by (simp add: previousSlide_def goToSlide_valid js_length_def)
next
  case (Goto j)
  assume "valid_position s"
  with Goto show ?thesis by (simp add: goToSlide_valid)
qed

lemma nav_run_valid: "valid_position s \<Longrightarrow> valid_position (nav_run s ops)"
  unfolding nav_run_def
  by (induction ops arbitrary: s) (simp_all add: nav_step_valid)

lemma nextSlide_wraps:
  assumes "properties s \<noteq> []" "\<not> isLoading s"
    and "currentIndex s = Index (int (length (properties s)) - 1)"
  shows "currentIndex (nextSlide s) = Index 0"
  using assms
  by (auto simp: nextSlide_def goToSlide_def displaySlide_def resetAutoAdvance_def
      startAutoAdvance_def stopAutoAdvance_def Let_def js_length_def split: option.splits)

lemma previousSlide_wraps:
  assumes "properties s \<noteq> []" "\<not> isLoading s" "currentIndex s = Index 0"
  shows "currentIndex (previousSlide s) = Index (int (length (properties s)) - 1)"
  using assms
  by (auto simp: previousSlide_def goToSlide_def displaySlide_def resetAutoAdvance_def
      startAutoAdvance_def stopAutoAdvance_def Let_def js_length_def split: option.splits)

lemma state_after_goToSlide_index:
  "ps_currentIndex (state_after (ps_goToSlide s i)) = i"
  by (auto simp: ps_goToSlide_def updateDisplay_def showMessage_def setTimeout_def
      startSlideshow_def ps_clearInterval_def setInterval_def Let_def
      split: option.splits sum.splits prod.splits)

lemma state_after_goToSlide_properties:
  "ps_properties (state_after (ps_goToSlide s i)) = ps_properties s"
  by (auto simp: ps_goToSlide_def updateDisplay_def showMessage_def setTimeout_def
      startSlideshow_def ps_clearInterval_def setInterval_def Let_def
      split: option.splits sum.splits prod.splits)

lemma ps_nav_step_properties: "ps_properties (ps_nav_step s a) = ps_properties s"
  by (cases a) (simp_all add: ps_nextSlide_def ps_previousSlide_def state_after_goToSlide_properties)

lemma idx_mod_nonneg:
  "0 \<le> a \<Longrightarrow> 0 < n \<Longrightarrow> idx_mod (Index a) (Index n) = Index (a mod n)"
  by (cases "a = 0") (simp_all add: sgn_if)

lemma ps_next_index:
  assumes "0 \<le> i" "i < n"
  shows "idx_mod (idx_add (Index i) (Index 1)) (Index n) = Index ((i + 1) mod n)"
proof -
  have "0 \<le> i + 1" "0 < n" using assms by linarith+
  then show ?thesis using idx_mod_nonneg [of "i + 1" n] by simp
qed

lemma ps_previous_index:
  assumes "0 \<le> i" "i < n"
  shows "idx_mod (idx_add (idx_sub (Index i) (Index 1)) (Index n)) (Index n)
           = Index ((i - 1 + n) mod n)"
proof -
  have "0 \<le> i - 1 + n" "0 < n" using assms by linarith+
  then show ?thesis using idx_mod_nonneg [of "i - 1 + n" n] by simp
qed

lemma ps_nav_step_valid:
  assumes "ps_valid_position s" "in_range s a"
  shows "ps_valid_position (ps_nav_step s a)"
proof -
  define n where "n = int (length (ps_properties s))"
  from assms(1) obtain i where i: "ps_currentIndex s = Index i" "0 \<le> i" "i < n"
    by (auto simp: ps_valid_position_def n_def split: index.splits)
  then have n: "0 < n" by linarith
  have len: "js_length (ps_properties s) = Index n"
    by (simp add: js_length_def n_def)
  have goal: "ps_valid_position (state_after (ps_goToSlide s (Index j)))"
    if "0 \<le> j" "j < n" for j
    using that
    by (simp add: ps_valid_position_def state_after_goToSlide_index
        state_after_goToSlide_properties n_def)
  show ?thesis
  proof (cases a)
    case Next
    have "ps_nextSlide s = ps_goToSlide s (Index ((i + 1) mod n))"
      using i by (simp only: ps_nextSlide_def len ps_next_index)
    moreover have "0 \<le> (i + 1) mod n" "(i + 1) mod n < n"
      using n by simp_all
    ultimately show ?thesis using Next goal by simp
  next
    case Previous
    have "ps_previousSlide s = ps_goToSlide s (Index ((i - 1 + n) mod n))"
      using i by (simp only: ps_previousSlide_def len ps_previous_index)
    moreover have "0 \<le> (i - 1 + n) mod n" "(i - 1 + n) mod n < n"
      using n by simp_all
    ultimately show ?thesis using Previous goal by simp
  next
    case (Goto j)
    with assms(2) show ?thesis using goal by (simp add: n_def)
  qed
qed

lemma ps_nav_run_valid:
  "ps_valid_position s \<Longrightarrow> \<forall>a\<in>set ops. in_range s a \<Longrightarrow> ps_valid_position (ps_nav_run s ops)"
  unfolding ps_nav_run_def
proof (induction ops arbitrary: s)
  case Nil
  then show ?case by simp
next
  case (Cons a ops)
  have v: "ps_valid_position (ps_nav_step s a)"
    using Cons.prems by (simp add: ps_nav_step_valid)
  have "\<forall>b\<in>set ops. in_range (ps_nav_step s a) b"
  proof
    fix b assume "b \<in> set ops"
    with Cons.prems(2) have "in_range s b" by simp
    then show "in_range (ps_nav_step s a) b"
      by (cases b) (simp_all add: ps_nav_step_properties)
  qed
  with v show ?case using Cons.IH by simp
qed

lemma ps_nextSlide_wraps:
  assumes "ps_properties s \<noteq> []"
    and "ps_currentIndex s = Index (int (length (ps_properties s)) - 1)"
  shows "ps_currentIndex (state_after (ps_nextSlide s)) = Index 0"
proof -
  define n where "n = int (length (ps_properties s))"
  have n: "0 < n" using assms(1) by (simp add: n_def)
  have "idx_mod (idx_add (Index (n - 1)) (Index 1)) (Index n) = Index ((n - 1 + 1) mod n)"
    using n by (intro ps_next_index) simp_all
  then show ?thesis
    using assms(2) by (simp add: ps_nextSlide_def state_after_goToSlide_index js_length_def n_def)
qed

lemma ps_previousSlide_wraps:
  assumes "ps_properties s \<noteq> []" "ps_currentIndex s = Index 0"
  shows "ps_currentIndex (state_after (ps_previousSlide s)) = Index (int (length (ps_properties s)) - 1)"
proof -
  define n where "n = int (length (ps_properties s))"
  have n: "0 < n" using assms(1) by (simp add: n_def)
  have "idx_mod (idx_add (idx_sub (Index 0) (Index 1)) (Index n)) (Index n)
          = Index ((0 - 1 + n) mod n)"
    using n by (intro ps_previous_index) simp_all
  moreover have "(0 - 1 + n) mod n = n - 1"
  proof -
    have "0 \<le> n - 1" "n - 1 < n" using n by linarith+
    then have "(n - 1) mod n = n - 1" by (rule mod_pos_pos_trivial)
    moreover have "0 - 1 + n = n - 1" by simp
    ultimately show ?thesis by (simp only:)
  qed
  ultimately show ?thesis
    using assms(2)
    by (simp only: ps_previousSlide_def state_after_goToSlide_index js_length_def n_def)
qed

lemma nav_step_loading: "isLoading s \<Longrightarrow> nav_step s a = s"
  by (cases a) (simp_all add: nextSlide_def previousSlide_def goToSlide_def)

text \<open>
  Claim C6, as amended. Starting from a valid position, \<open>currentIndex\<close> is a valid
  position of the sequence after any run of next, previous and goto requests: for
  RealEstateSlideshow with any integer goto argument (an index outside the sequence is
  ignored by \<open>displaySlide\<close>), for PropertySlideshow when every goto argument names a
  position of the sequence (its \<open>goToSlide\<close> stores the argument unchecked). In both
  controllers next from the last index gives index 0 and previous from index 0 gives the
  last index; in RealEstateSlideshow this needs that no transition is in progress.
\<close>

theorem currentIndex_valid_after_navigation:
  "(valid_position s \<longrightarrow> valid_position (nav_run s ops))
   \<and> (ps_valid_position p \<and> (\<forall>a\<in>set ops. in_range p a) \<longrightarrow> ps_valid_position (ps_nav_run p ops))
   \<and> (properties s \<noteq> [] \<and> \<not> isLoading s
        \<and> currentIndex s = Index (int (length (properties s)) - 1)
       \<longrightarrow> currentIndex (nextSlide s) = Index 0)
   \<and> (properties s \<noteq> [] \<and> \<not> isLoading s \<and> currentIndex s = Index 0
       \<longrightarrow> currentIndex (previousSlide s) = Index (int (length (properties s)) - 1))
   \<and> (ps_properties p \<noteq> [] \<and> ps_currentIndex p = Index (int (length (ps_properties p)) - 1)
       \<longrightarrow> ps_currentIndex (state_after (ps_nextSlide p)) = Index 0)
   \<and> (ps_properties p \<noteq> [] \<and> ps_currentIndex p = Index 0
       \<longrightarrow> ps_currentIndex (state_after (ps_previousSlide p))
             = Index (int (length (ps_properties p)) - 1))"
  using nav_run_valid [of s ops] ps_nav_run_valid [of p ops]
    nextSlide_wraps [of s] previousSlide_wraps [of s]
    ps_nextSlide_wraps [of p] ps_previousSlide_wraps [of p]
  by blast

text \<open>Witness for C6: three slides; one controller of each kind at the first slide and
  one at the last, and a run that wraps in both directions and asks for a slide outside
  the sequence (RealEstateSlideshow) or inside it (PropertySlideshow).\<close>

theorem currentIndex_valid_after_navigation_witness:
  "valid_position (nav_run (rs_example [1, 2, 3 :: nat]) [Previous, Next, Goto 7, Goto 2, Next])
   \<and> ps_valid_position
        (ps_nav_run (ps_example [listing_item, message_item 4000, listing_item])
           [Previous, Next, Goto 1, Goto 2, Next])
   \<and> currentIndex (nextSlide ((rs_example [1, 2, 3 :: nat])\<lparr>currentIndex := Index 2\<rparr>)) = Index 0
   \<and> currentIndex (previousSlide (rs_example [1, 2, 3 :: nat])) = Index 2
   \<and> ps_currentIndex (state_after (ps_nextSlide
        ((ps_example [listing_item, message_item 4000, listing_item])\<lparr>ps_currentIndex := Index 2\<rparr>)))
       = Index 0
   \<and> ps_currentIndex (state_after (ps_previousSlide
        (ps_example [listing_item, message_item 4000, listing_item]))) = Index 2"
  using currentIndex_valid_after_navigation
      [of "rs_example [1, 2, 3 :: nat]" "[Previous, Next, Goto 7, Goto 2, Next]"
          "ps_example [listing_item, message_item 4000, listing_item]"]
    currentIndex_valid_after_navigation
      [of "(rs_example [1, 2, 3 :: nat])\<lparr>currentIndex := Index 2\<rparr>" "[Previous, Next, Goto 1, Goto 2, Next]"
          "(ps_example [listing_item, message_item 4000, listing_item])\<lparr>ps_currentIndex := Index 2\<rparr>"]
    currentIndex_valid_after_navigation
      [of "rs_example [1, 2, 3 :: nat]" "[Previous, Next, Goto 1, Goto 2, Next]"
          "ps_example [listing_item, message_item 4000, listing_item]"]
  by (simp add: rs_example_def ps_example_def valid_position_def ps_valid_position_def)

text \<open>Counterexample for C6 as stated: in PropertySlideshow, with three slides and the
  first one shown, goto(5) leaves \<open>currentIndex\<close> at 5, outside the sequence.\<close>

theorem goToSlide_out_of_range_counterexample:
  "ps_valid_position (ps_example [listing_item, listing_item, listing_item])
   \<and> \<not> ps_valid_position
         (ps_nav_run (ps_example [listing_item, listing_item, listing_item]) [Goto 5])"
  by (simp add: ps_nav_run_def ps_example_def ps_valid_position_def ps_goToSlide_def
      updateDisplay_def)

text \<open>
  Claim C7 at the failing input. RealEstateSlideshow with an empty sequence, index 0, no
  transition in progress, playing: \<open>nextSlide\<close> computes \<open>1 % 0 = NaN\<close>, which passes
  both range tests of \<open>displaySlide\<close>, so \<open>currentIndex\<close> becomes \<open>NaN\<close>; and
  \<open>previousSlide\<close> and \<open>goToSlide\<close> start the auto-advance timer. None of the three
  is a no-op there.
\<close>

theorem navigation_on_empty_sequence_not_noop:
  "currentIndex (nextSlide (rs_example ([] :: unit list))) = NaN
   \<and> autoAdvanceInterval (previousSlide (rs_example ([] :: unit list))) = Some 1
   \<and> autoAdvanceInterval (goToSlide (rs_example ([] :: unit list)) (Index 3)) = Some 1
   \<and> autoAdvanceInterval (rs_example ([] :: unit list)) = None
   \<and> currentIndex (rs_example ([] :: unit list)) = Index 0"
  by (simp add: rs_example_def nextSlide_def previousSlide_def goToSlide_def displaySlide_def
      js_length_def resetAutoAdvance_def startAutoAdvance_def stopAutoAdvance_def)



lemma js_nth_SomeD: "js_nth xs j = Some x \<Longrightarrow> \<exists>i. j = Index i \<and> 0 \<le> i \<and> i < int (length xs)"
  by (cases j) (auto split: if_splits)





section \<open>Verified properties: normalization\<close>

lemma format_currency_head: "\<exists>rest. format_currency n = CHR ''$'' # rest \<or> format_currency n = CHR ''-'' # rest"
  by (cases n) simp_all

lemma format_currency_not_sentinel: "format_currency n \<noteq> price_on_request"
  using format_currency_head [of n] unfolding price_on_request_def by (elim exE disjE) simp_all

lemma formatPrice_sentinel_iff:
  "formatPrice p = price_on_request \<longleftrightarrow> \<not> truthy p \<or> isNaN p"
  by (simp add: formatPrice_def format_currency_not_sentinel)

lemma formatPrice_never_bare:
  "formatPrice p \<noteq> ''0'' \<and> formatPrice p \<noteq> ''NaN''"
proof (cases "\<not> truthy p \<or> isNaN p")
  case True
  then show ?thesis by (simp add: formatPrice_def price_on_request_def)
next
  case False
  then have "formatPrice p = format_currency (parseFloat p)" by (simp add: formatPrice_def)
  then show ?thesis using format_currency_head [of "parseFloat p"]
    by (elim exE disjE) simp_all
qed

lemma formatPrice_blank: "formatPrice (Str '' '') = ''$NaN''"
  by code_simp
lemma formatPrice_zero_string: "formatPrice (Str ''0'') = ''$0''"
  by code_simp
lemma formatPrice_true: "formatPrice (Bool True) = ''$NaN''"
  by code_simp
lemma formatPrice_zero: "formatPrice (Num (Fin 0)) = price_on_request"
  by code_simp
lemma formatPrice_text: "formatPrice (Str ''abc'') = price_on_request"
  by code_simp

text \<open>
  Claim C4 at the failing inputs. A price that is a blank string or the string \<open>0\<close>
  is truthy, and \<open>Number\<close> reads both as 0, so neither test of the guard
  \<open>!price || isNaN(price)\<close> catches them; \<open>parseFloat\<close> then reads the blank string
  as \<open>NaN\<close> and the result is a formatted \<open>NaN\<close> or a formatted zero instead of the
  sentinel. The same happens for the price \<open>true\<close>. The number 0 and a string with no
  number in it do give the sentinel.
\<close>

theorem formatPrice_misses_blank_and_zero_strings:
  "formatPrice (Str '' '') = ''$NaN''
   \<and> formatPrice (Str ''0'') = ''$0''
   \<and> formatPrice (Bool True) = ''$NaN''
   \<and> formatPrice (Num (Fin 0)) = price_on_request
   \<and> formatPrice (Str ''abc'') = price_on_request"
  by (simp only: formatPrice_blank formatPrice_zero_string formatPrice_true formatPrice_zero
      formatPrice_text simp_thms)

text \<open>Witness for C4: at the blank string the guard of \<open>formatPrice\<close> is not taken
  (the string is truthy and \<open>isNaN\<close> is false), and the result is not the sentinel.\<close>

theorem formatPrice_misses_blank_and_zero_strings_witness:
  "truthy (Str '' '') \<and> \<not> isNaN (Str '' '') \<and> formatPrice (Str '' '') \<noteq> price_on_request"
proof -
  have "\<not> isNaN (Str '' '')" by code_simp
  then show ?thesis
    using formatPrice_misses_blank_and_zero_strings by (simp add: price_on_request_def)
qed

lemma parseInt_zero: "parseInt (Num (Fin 0)) = Fin 0"
  by code_simp

lemma parseFloat_zero: "parseFloat (Num (Fin 0)) = Fin 0"
  by code_simp

lemma parseInt_3: "parseInt (Str ''3'') = Fin 3"
  by code_simp

lemma parseInt_abc: "parseInt (Str ''abc'') = Nan"
  by code_simp

lemma parseInt_minus_2: "parseInt (Num (Fin (- 2))) = Fin (- 2)"
  by code_simp

lemma js_or_cases:
  "js_or a (js_or b c) = (if truthy a then a else if truthy b then b else c)"
  by (simp add: js_or_def)

lemma bedrooms_normalized:
  assumes "normalizeProperty ApiInstance now p = Inr l"
  shows "bedrooms (features l) =
           parseInt (js_or (field p ''bedrooms'') (js_or (field p ''beds'') (Num (Fin 0))))"
    and "bathrooms (features l) =
           parseFloat (js_or (field p ''bathrooms'') (js_or (field p ''baths'') (Num (Fin 0))))"
    and "area (features l) =
           parseInt (js_or (field p ''area'') (js_or (field p ''square_feet'') (Num (Fin 0))))"
    and "yearBuilt (features l) =
           parseInt (js_or (field p ''year_built'') (js_or (field p ''built_year'') (Num (Fin 0))))"
    and "garage (features l) =
           parseInt (js_or (field p ''garage_spaces'') (js_or (field p ''garage'') (Num (Fin 0))))"
  using assms by (auto simp: normalizeProperty_def)

lemma first_truthy_cases:
  assumes "v = f (js_or a (js_or b (Num (Fin 0))))" "f (Num (Fin 0)) = Fin 0"
  shows "(truthy a \<longrightarrow> v = f a)
       \<and> (\<not> truthy a \<and> truthy b \<longrightarrow> v = f b)
       \<and> (\<not> truthy a \<and> \<not> truthy b \<longrightarrow> v = Fin 0)"
  using assms by (simp add: js_or_def)

text \<open>
  Claim C5, as amended. For each numeric feature the value parsed is the primary key's
  value when that is truthy, else the alternate key's value when that is truthy, else the
  number 0: so the feature is 0 when both keys are absent or falsy, and otherwise it is
  whatever \<open>parseInt\<close> (\<open>parseFloat\<close> for bathrooms) makes of the value found, which
  for the string \<open>3\<close> is the number 3.
\<close>

theorem numeric_features_normalized:
  assumes "normalizeProperty ApiInstance now p = Inr l"
  shows "((truthy (field p ''bedrooms'') \<longrightarrow> bedrooms (features l) = parseInt (field p ''bedrooms''))
        \<and> (\<not> truthy (field p ''bedrooms'') \<and> truthy (field p ''beds'')
            \<longrightarrow> bedrooms (features l) = parseInt (field p ''beds''))
        \<and> (\<not> truthy (field p ''bedrooms'') \<and> \<not> truthy (field p ''beds'')
            \<longrightarrow> bedrooms (features l) = Fin 0))
     \<and> ((truthy (field p ''bathrooms'') \<longrightarrow> bathrooms (features l) = parseFloat (field p ''bathrooms''))
        \<and> (\<not> truthy (field p ''bathrooms'') \<and> truthy (field p ''baths'')
            \<longrightarrow> bathrooms (features l) = parseFloat (field p ''baths''))
        \<and> (\<not> truthy (field p ''bathrooms'') \<and> \<not> truthy (field p ''baths'')
            \<longrightarrow> bathrooms (features l) = Fin 0))
     \<and> ((truthy (field p ''area'') \<longrightarrow> area (features l) = parseInt (field p ''area''))
        \<and> (\<not> truthy (field p ''area'') \<and> truthy (field p ''square_feet'')
            \<longrightarrow> area (features l) = parseInt (field p ''square_feet''))
        \<and> (\<not> truthy (field p ''area'') \<and> \<not> truthy (field p ''square_feet'')
            \<longrightarrow> area (features l) = Fin 0))
     \<and> ((truthy (field p ''year_built'') \<longrightarrow> yearBuilt (features l) = parseInt (field p ''year_built''))
        \<and> (\<not> truthy (field p ''year_built'') \<and> truthy (field p ''built_year'')
            \<longrightarrow> yearBuilt (features l) = parseInt (field p ''built_year''))
        \<and> (\<not> truthy (field p ''year_built'') \<and> \<not> truthy (field p ''built_year'')
            \<longrightarrow> yearBuilt (features l) = Fin 0))
     \<and> ((truthy (field p ''garage_spaces'') \<longrightarrow> garage (features l) = parseInt (field p ''garage_spaces''))
        \<and> (\<not> truthy (field p ''garage_spaces'') \<and> truthy (field p ''garage'')
            \<longrightarrow> garage (features l) = parseInt (field p ''garage''))
        \<and> (\<not> truthy (field p ''garage_spaces'') \<and> \<not> truthy (field p ''garage'')
            \<longrightarrow> garage (features l) = Fin 0))
     \<and> (field p ''bedrooms'' = Str ''3'' \<longrightarrow> bedrooms (features l) = Fin 3)"
proof -
  note n = bedrooms_normalized [OF assms]
  have last: "field p ''bedrooms'' = Str ''3'' \<longrightarrow> bedrooms (features l) = Fin 3"
    using n(1) by (simp add: js_or_def parseInt_3)
  show ?thesis
    using first_truthy_cases [OF n(1) parseInt_zero] first_truthy_cases [OF n(2) parseFloat_zero]
      first_truthy_cases [OF n(3) parseInt_zero] first_truthy_cases [OF n(4) parseInt_zero]
      first_truthy_cases [OF n(5) parseInt_zero] last
    by blast
qed

lemma normalizeProperty_returns: "\<exists>l. normalizeProperty ApiInstance now p = Inr l"
  by (simp add: normalizeProperty_def)

lemma parse_samples:
  "parseInt (Num (Fin 2)) = Fin 2" "parseFloat (Str ''1.5'') = Fin (3 / 2)"
  "parseInt (Num (Fin 90)) = Fin 90" "parseInt (Str ''1999'') = Fin 1999"
  "parseInt (Num (Fin 1)) = Fin 1" "parseFloat (Num (Fin 2)) = Fin 2"
  "parseInt (Str ''120'') = Fin 120" "parseInt (Num (Fin 2001)) = Fin 2001"
  "parseInt (Str ''2'') = Fin 2"
  by code_simp+

text \<open>Witness for C5: the three records above.\<close>

theorem numeric_features_normalized_witness:
  "(\<exists>l. normalizeProperty ApiInstance ''2024-01-01T00:00:00.000Z'' scenario_record = Inr l
        \<and> bedrooms (features l) = Fin 3 \<and> bathrooms (features l) = Fin 0
        \<and> area (features l) = Fin 0 \<and> yearBuilt (features l) = Fin 0
        \<and> garage (features l) = Fin 0)
   \<and> (\<exists>l. normalizeProperty ApiInstance ''2024-01-01T00:00:00.000Z'' alternate_record = Inr l
        \<and> bedrooms (features l) = Fin 2 \<and> bathrooms (features l) = Fin (3 / 2)
        \<and> area (features l) = Fin 90 \<and> yearBuilt (features l) = Fin 1999
        \<and> garage (features l) = Fin 1)
   \<and> (\<exists>l. normalizeProperty ApiInstance ''2024-01-01T00:00:00.000Z'' primary_record = Inr l
        \<and> bedrooms (features l) = Fin 0 \<and> bathrooms (features l) = Fin 2
        \<and> area (features l) = Fin 120 \<and> yearBuilt (features l) = Fin 2001
        \<and> garage (features l) = Fin 2)"
proof (intro conjI)
  obtain l where l: "normalizeProperty ApiInstance ''2024-01-01T00:00:00.000Z'' scenario_record = Inr l"
    using normalizeProperty_returns by blast
  show "\<exists>l. normalizeProperty ApiInstance ''2024-01-01T00:00:00.000Z'' scenario_record = Inr l
        \<and> bedrooms (features l) = Fin 3 \<and> bathrooms (features l) = Fin 0
        \<and> area (features l) = Fin 0 \<and> yearBuilt (features l) = Fin 0
        \<and> garage (features l) = Fin 0"
    using l numeric_features_normalized [OF l]
    by (simp add: scenario_record_def field_def parseInt_3)
next
  obtain l where l: "normalizeProperty ApiInstance ''2024-01-01T00:00:00.000Z'' alternate_record = Inr l"
    using normalizeProperty_returns by blast
  show "\<exists>l. normalizeProperty ApiInstance ''2024-01-01T00:00:00.000Z'' alternate_record = Inr l
        \<and> bedrooms (features l) = Fin 2 \<and> bathrooms (features l) = Fin (3 / 2)
        \<and> area (features l) = Fin 90 \<and> yearBuilt (features l) = Fin 1999
        \<and> garage (features l) = Fin 1"
    using l numeric_features_normalized [OF l]
    by (simp add: alternate_record_def field_def parse_samples)
next
  obtain l where l: "normalizeProperty ApiInstance ''2024-01-01T00:00:00.000Z'' primary_record = Inr l"
    using normalizeProperty_returns by blast
  show "\<exists>l. normalizeProperty ApiInstance ''2024-01-01T00:00:00.000Z'' primary_record = Inr l
        \<and> bedrooms (features l) = Fin 0 \<and> bathrooms (features l) = Fin 2
        \<and> area (features l) = Fin 120 \<and> yearBuilt (features l) = Fin 2001
        \<and> garage (features l) = Fin 2"
    using l numeric_features_normalized [OF l]
    by (simp add: primary_record_def field_def parse_samples)
qed

text \<open>Counterexample for C5 as stated: a value that fails to parse gives \<open>NaN\<close>, not
  0, and a negative value stays negative.\<close>

theorem unparsable_bedrooms_counterexample:
  "map_sum id (\<lambda>l. bedrooms (features l))
     (normalizeProperty ApiInstance ''2024-01-01T00:00:00.000Z''
        [(''id'', Num (Fin 1)), (''bedrooms'', Str ''abc'')]) = Inr Nan
   \<and> map_sum id (\<lambda>l. garage (features l))
     (normalizeProperty ApiInstance ''2024-01-01T00:00:00.000Z''
        [(''id'', Num (Fin 1)), (''garage'', Num (Fin (- 2)))]) = Inr (Fin (- 2))
   \<and> \<not> is_nonneg Nan \<and> \<not> is_nonneg (Fin (- 2))"
  by (simp add: normalizeProperty_def field_def js_or_def parseInt_abc parseInt_minus_2)

section \<open>Verified properties: retry, fallback and cache\<close>

lemma attempt_once_eq:
  "attempt_once net u a =
     (if ok (net (length (requests a)) u) then Inr (net (length (requests a)) u)
      else Inl (error_of (net (length (requests a)) u)),
      a\<lparr>requests := requests a @ [u]\<rparr>)"
  by (cases "net (length (requests a)) u") (simp_all add: attempt_once_def Let_def)

lemma attempt_loop_done:
  "retryAttempts a < attempt \<Longrightarrow> attempt_loop net u attempt e a = (Inl e, a)"
  by (subst attempt_loop.simps) simp

lemma attempt_loop_ok:
  "attempt \<le> retryAttempts a \<Longrightarrow> ok (net (length (requests a)) u) \<Longrightarrow>
   attempt_loop net u attempt e a
     = (Inr (net (length (requests a)) u), a\<lparr>requests := requests a @ [u]\<rparr>)"
  by (subst attempt_loop.simps) (simp add: attempt_once_eq)

lemma attempt_loop_retry:
  "attempt < retryAttempts a \<Longrightarrow> \<not> ok (net (length (requests a)) u) \<Longrightarrow>
   attempt_loop net u attempt e a
     = attempt_loop net u (Suc attempt) (error_of (net (length (requests a)) u))
         (a\<lparr>requests := requests a @ [u], delays := delays a @ [retryDelay a * attempt]\<rparr>)"
  by (subst attempt_loop.simps) (simp add: attempt_once_eq)

lemma attempt_loop_last:
  "attempt = retryAttempts a \<Longrightarrow> \<not> ok (net (length (requests a)) u) \<Longrightarrow>
   attempt_loop net u attempt e a
     = (Inl (error_of (net (length (requests a)) u)), a\<lparr>requests := requests a @ [u]\<rparr>)"
  by (subst attempt_loop.simps) (simp add: attempt_once_eq attempt_loop_done)

lemma fetchWithRetry_three_attempts:
  assumes "retryAttempts a = 3" "retryDelay a = 1000"
  shows "fetchWithRetry net u a =
    (if ok (net (length (requests a)) u)
     then (Inr (net (length (requests a)) u), a\<lparr>requests := requests a @ [u]\<rparr>)
     else if ok (net (length (requests a) + 1) u)
     then (Inr (net (length (requests a) + 1) u),
           a\<lparr>requests := requests a @ [u, u], delays := delays a @ [1000]\<rparr>)
     else if ok (net (length (requests a) + 2) u)
     then (Inr (net (length (requests a) + 2) u),
           a\<lparr>requests := requests a @ [u, u, u], delays := delays a @ [1000, 2000]\<rparr>)
     else (Inl (error_of (net (length (requests a) + 2) u)),
           a\<lparr>requests := requests a @ [u, u, u], delays := delays a @ [1000, 2000]\<rparr>))"
  using assms
  by (simp add: fetchWithRetry_def attempt_loop_ok attempt_loop_retry attempt_loop_last)

text \<open>
  Claim C2. With the constructor's settings (3 attempts, base delay 1000 ms)
  \<open>fetchWithRetry\<close> makes one, two or three requests and stops at the first response
  with a 2xx status; a rejected \<open>fetch\<close> and a response with another status both count
  as a failed attempt; it waits 1000 ms before the second attempt and 2000 ms before the
  third (3000 ms in all when all three fail) and not after the last one; when all three
  fail, the error of the third attempt is thrown.
\<close>

theorem fetchWithRetry_policy:
  assumes "retryAttempts a = 3" "retryDelay a = 1000"
  shows "fetchWithRetry net u a =
    (if ok (net (length (requests a)) u)
     then (Inr (net (length (requests a)) u), a\<lparr>requests := requests a @ [u]\<rparr>)
     else if ok (net (length (requests a) + 1) u)
     then (Inr (net (length (requests a) + 1) u),
           a\<lparr>requests := requests a @ [u, u], delays := delays a @ [1000]\<rparr>)
     else if ok (net (length (requests a) + 2) u)
     then (Inr (net (length (requests a) + 2) u),
           a\<lparr>requests := requests a @ [u, u, u], delays := delays a @ [1000, 2000]\<rparr>)
     else (Inl (error_of (net (length (requests a) + 2) u)),
           a\<lparr>requests := requests a @ [u, u, u], delays := delays a @ [1000, 2000]\<rparr>))"
  using assms by (rule fetchWithRetry_three_attempts)

lemma fetchWithRetry_shape:
  assumes "retryAttempts a = 3" "retryDelay a = 1000"
  shows "\<exists>res j ds. j \<in> {1, 2, 3} \<and>
           fetchWithRetry net u a
             = (res, a\<lparr>requests := requests a @ replicate j u, delays := delays a @ ds\<rparr>)"
proof -
  let ?n = "length (requests a)"
  let ?P = "\<lambda>res j ds. fetchWithRetry net u a
              = (res, a\<lparr>requests := requests a @ replicate j u, delays := delays a @ ds\<rparr>)"
  note p = fetchWithRetry_three_attempts [OF assms, of net u]
  consider (one) "ok (net ?n u)"
    | (two) "\<not> ok (net ?n u)" "ok (net (?n + 1) u)"
    | (three) "\<not> ok (net ?n u)" "\<not> ok (net (?n + 1) u)"
    by blast
  then show ?thesis
  proof cases
    case one
    then have "?P (Inr (net ?n u)) 1 []" using p by simp
    then show ?thesis by blast
  next
    case two
    then have "?P (Inr (net (?n + 1) u)) 2 [1000]" using p by (simp add: numeral_2_eq_2)
    then show ?thesis by blast
  next
    case three
    then have "?P (if ok (net (?n + 2) u) then Inr (net (?n + 2) u)
                   else Inl (error_of (net (?n + 2) u))) 3 [1000, 2000]"
      using p by (simp add: numeral_3_eq_3)
    then show ?thesis by blast
  qed
qed

lemma fetchWithRetry_down:
  assumes "retryAttempts a = 3" "retryDelay a = 1000" "\<forall>k. \<not> ok (net k u)"
  shows "fetchWithRetry net u a
           = (Inl (error_of (net (length (requests a) + 2) u)),
              a\<lparr>requests := requests a @ [u, u, u], delays := delays a @ [1000, 2000]\<rparr>)"
  using assms(3) by (simp add: fetchWithRetry_three_attempts [OF assms(1,2)])

text \<open>Witness for C2: two transport failures, then a 503.\<close>

theorem fetchWithRetry_policy_witness:
  "retryAttempts new_api = 3 \<and> retryDelay new_api = 1000
   \<and> fetchWithRetry failing_origin ''/api/properties'' new_api
       = (Inl (HttpError 503 ''Service Unavailable''),
          new_api\<lparr>requests := [''/api/properties'', ''/api/properties'', ''/api/properties''],
                   delays := [1000, 2000]\<rparr>)
   \<and> sum_list [1000, 2000 :: nat] = 3000"
proof -
  have c: "retryAttempts new_api = 3" "retryDelay new_api = 1000"
    by (simp_all add: new_api_def)
  have r: "requests new_api = []" "delays new_api = []"
    by (simp_all add: new_api_def)
  show ?thesis
    using c fetchWithRetry_policy [OF c, of failing_origin "''/api/properties''"]
    by (simp add: r failing_origin_def)
qed

lemma fetchProperties_hit:
  "cache a (cacheKey options) = Some v \<Longrightarrow> fetchProperties net now options a = (Inr v, a)"
  by (simp add: fetchProperties_def)

lemma fetchProperties_down:
  assumes cfg: "retryAttempts a = 3" "retryDelay a = 1000"
    and miss: "cache a (cacheKey options) = None"
    and down: "unreachable net (request_url a options)"
  shows "fetchProperties net now options a =
    (if field options ''useMockData'' \<noteq> Bool False
     then (Inr (Suc (allocated a), Listings (getMockProperties now)),
           a\<lparr>requests := requests a @ replicate 3 (request_url a options),
             delays := delays a @ [1000, 2000], allocated := Suc (allocated a)\<rparr>)
     else (Inl unable_to_load,
           a\<lparr>requests := requests a @ replicate 3 (request_url a options),
             delays := delays a @ [1000, 2000]\<rparr>))"
  using miss down [unfolded unreachable_def] fetchWithRetry_down [of a net "request_url a options", OF cfg]
  by (simp add: fetchProperties_def numeral_3_eq_3)

lemma fetchProperty_down:
  assumes cfg: "retryAttempts a = 3" "retryDelay a = 1000"
    and miss: "cache a (''property_'' @ to_string ident) = None"
    and down: "unreachable net (baseUrl a @ ''/properties/'' @ to_string ident)"
  shows "fetchProperty net now ident a =
     (Inl (error_of (net (length (requests a) + 2) (baseUrl a @ ''/properties/'' @ to_string ident))),
      a\<lparr>requests := requests a @ replicate 3 (baseUrl a @ ''/properties/'' @ to_string ident),
        delays := delays a @ [1000, 2000]\<rparr>)"
  using miss down [unfolded unreachable_def]
    fetchWithRetry_down [of a net "baseUrl a @ ''/properties/'' @ to_string ident", OF cfg]
  by (simp add: fetchProperty_def numeral_3_eq_3)

lemma mock_nonempty: "length (getMockProperties now) = 3"
  by (simp add: getMockProperties_def)

text \<open>
  Claim C3. The API has the constructor's retry settings, nothing is cached for the
  request, and the origin never answers with a 2xx status. Then \<open>fetchProperties\<close>
  returns a new array holding the built-in sample listings (three of them) unless
  \<open>options.useMockData\<close> is \<open>false\<close>, in which case it throws; the cache is left
  as it was, so that calling again with the same options sends three more requests; and
  \<open>fetchProperty\<close> throws the error of the last attempt and caches nothing.
\<close>

theorem fallback_when_origin_unreachable:
  assumes cfg: "retryAttempts a = 3" "retryDelay a = 1000"
    and miss: "cache a (cacheKey options) = None"
    and down: "unreachable net (request_url a options)"
    and miss1: "cache a (''property_'' @ to_string ident) = None"
    and down1: "unreachable net (baseUrl a @ ''/properties/'' @ to_string ident)"
  shows "(field options ''useMockData'' \<noteq> Bool False \<longrightarrow>
            fst (fetchProperties net now options a)
              = Inr (Suc (allocated a), Listings (getMockProperties now)))
       \<and> (field options ''useMockData'' = Bool False \<longrightarrow>
            fst (fetchProperties net now options a) = Inl unable_to_load)
       \<and> getMockProperties now \<noteq> []
       \<and> cache (snd (fetchProperties net now options a)) = cache a
       \<and> requests (snd (fetchProperties net now options a))
            = requests a @ replicate 3 (request_url a options)
       \<and> requests (snd (fetchProperties net now options (snd (fetchProperties net now options a))))
            = requests a @ replicate 6 (request_url a options)
       \<and> fst (fetchProperty net now ident a)
            = Inl (error_of (net (length (requests a) + 2)
                               (baseUrl a @ ''/properties/'' @ to_string ident)))
       \<and> cache (snd (fetchProperty net now ident a)) = cache a"
proof -
  define a1 where "a1 = snd (fetchProperties net now options a)"
  note first = fetchProperties_down [OF cfg miss down, of now]
  have a1: "retryAttempts a1 = 3" "retryDelay a1 = 1000" "cache a1 = cache a"
    "request_url a1 options = request_url a options"
    "requests a1 = requests a @ replicate 3 (request_url a options)"
    using cfg by (simp_all add: a1_def first request_url_def)
  have miss': "cache a1 (cacheKey options) = None" using miss a1(3) by simp
  have down': "unreachable net (request_url a1 options)" using down a1(4) by simp
  note second = fetchProperties_down [OF a1(1,2) miss' down', of now]
  have six: "requests (snd (fetchProperties net now options a1))
               = requests a @ replicate 6 (request_url a options)"
    unfolding second a1(4,5)
    by (simp add: replicate_add [symmetric] del: replicate_add replicate_Suc)
  note single = fetchProperty_down [OF cfg miss1 down1, of now]
  show ?thesis
    using six a1(3,5) mock_nonempty [of now]
    unfolding a1_def [symmetric]
    by (auto simp: first single a1_def)
qed

text \<open>Witness for C3: a new API instance and an origin that is never reached, once
  with default options and once with \<open>useMockData: false\<close>.\<close>

theorem fallback_when_origin_unreachable_witness:
  "retryAttempts new_api = 3 \<and> retryDelay new_api = 1000
   \<and> cache new_api (cacheKey []) = None
   \<and> cache new_api (cacheKey [(''useMockData'', Bool False)]) = None
   \<and> unreachable unreachable_origin (request_url new_api [])
   \<and> unreachable unreachable_origin (request_url new_api [(''useMockData'', Bool False)])
   \<and> cache new_api (''property_'' @ to_string (Num (Fin 7))) = None
   \<and> unreachable unreachable_origin (baseUrl new_api @ ''/properties/'' @ to_string (Num (Fin 7)))
   \<and> fst (fetchProperties unreachable_origin ''2024-01-01T00:00:00.000Z'' [] new_api)
       = Inr (1, Listings (getMockProperties ''2024-01-01T00:00:00.000Z''))
   \<and> fst (fetchProperties unreachable_origin ''2024-01-01T00:00:00.000Z''
              [(''useMockData'', Bool False)] new_api) = Inl unable_to_load
   \<and> cache (snd (fetchProperties unreachable_origin ''2024-01-01T00:00:00.000Z'' [] new_api))
       = Map.empty
   \<and> fst (fetchProperty unreachable_origin ''2024-01-01T00:00:00.000Z'' (Num (Fin 7)) new_api)
       = Inl NetworkError"
proof -
  have c: "retryAttempts new_api = 3" "retryDelay new_api = 1000"
    and m: "\<And>k. cache new_api k = None"
    and d: "\<And>u. unreachable unreachable_origin u"
    by (simp_all add: new_api_def unreachable_def unreachable_origin_def)
  have f: "field [] ''useMockData'' \<noteq> Bool False"
    "field [(''useMockData'', Bool False)] ''useMockData'' = Bool False"
    by (simp_all add: field_def)
  have o: "\<And>k u. error_of (unreachable_origin k u) = NetworkError"
    "allocated new_api = 0" "cache new_api = Map.empty"
    by (simp_all add: unreachable_origin_def new_api_def)
  show ?thesis
    using c m d f
      fallback_when_origin_unreachable [where a = new_api and net = unreachable_origin
        and options = "[]" and ident = "Num (Fin 7)" and now = "''2024-01-01T00:00:00.000Z''"]
      fallback_when_origin_unreachable [where a = new_api and net = unreachable_origin
        and options = "[(''useMockData'', Bool False)]" and ident = "Num (Fin 7)"
        and now = "''2024-01-01T00:00:00.000Z''"]
    by (simp add: o)
qed

lemma fetchProperties_keeps_entries:
  assumes cfg: "retryAttempts a = 3" "retryDelay a = 1000"
    and k: "cache a k = Some v"
  shows "cache (snd (fetchProperties net now options a)) k = Some v"
proof (cases "cache a (cacheKey options)")
  case (Some w)
  then show ?thesis using k by (simp add: fetchProperties_def)
next
  case None
  then have ne: "k \<noteq> cacheKey options" using k by auto
  from fetchWithRetry_shape [OF cfg, of net "request_url a options"]
  obtain res j ds where
    "fetchWithRetry net (request_url a options) a
       = (res, a\<lparr>requests := requests a @ replicate j (request_url a options),
                 delays := delays a @ ds\<rparr>)"
    by blast
  then show ?thesis
    using None k ne
    by (simp add: fetchProperties_def Let_def split: sum.splits)
qed

lemma fetchProperty_keeps_entries:
  assumes cfg: "retryAttempts a = 3" "retryDelay a = 1000"
    and k: "cache a k = Some v"
  shows "cache (snd (fetchProperty net now ident a)) k = Some v"
proof (cases "cache a (''property_'' @ to_string ident)")
  case (Some w)
  then show ?thesis using k by (simp add: fetchProperty_def)
next
  case None
  then have ne: "k \<noteq> ''property_'' @ to_string ident" using k by auto
  from fetchWithRetry_shape [OF cfg, of net "baseUrl a @ ''/properties/'' @ to_string ident"]
  obtain res j ds where
    "fetchWithRetry net (baseUrl a @ ''/properties/'' @ to_string ident) a
       = (res, a\<lparr>requests := requests a @ replicate j (baseUrl a @ ''/properties/'' @ to_string ident),
                 delays := delays a @ ds\<rparr>)"
    by blast
  then show ?thesis
    using None k ne
    by (simp add: fetchProperty_def Let_def split: sum.splits)
qed

lemma fetchPropertyImages_keeps_entries:
  assumes cfg: "retryAttempts a = 3" "retryDelay a = 1000"
    and k: "cache a k = Some v"
  shows "cache (snd (fetchPropertyImages net ident a)) k = Some v"
proof (cases "cache a (''images_'' @ to_string ident)")
  case (Some w)
  then show ?thesis using k by (simp add: fetchPropertyImages_def)
next
  case None
  then have ne: "k \<noteq> ''images_'' @ to_string ident" using k by auto
  from fetchWithRetry_shape [OF cfg, of net "baseUrl a @ ''/properties/'' @ to_string ident @ ''/images''"]
  obtain res j ds where
    "fetchWithRetry net (baseUrl a @ ''/properties/'' @ to_string ident @ ''/images'') a
       = (res, a\<lparr>requests := requests a @ replicate j (baseUrl a @ ''/properties/'' @ to_string ident @ ''/images''),
                 delays := delays a @ ds\<rparr>)"
    by blast
  then show ?thesis
    using None k ne
    by (simp add: fetchPropertyImages_def Let_def split: sum.splits)
qed

lemma fetchProperties_after_clear:
  assumes cfg: "retryAttempts a = 3" "retryDelay a = 1000"
  shows "\<exists>j\<in>{1, 2, 3}. requests (snd (fetchProperties net now options (clearCache a)))
            = requests a @ replicate j (request_url a options)"
proof -
  let ?c = "clearCache a"
  have c: "retryAttempts ?c = 3" "retryDelay ?c = 1000" "cache ?c (cacheKey options) = None"
    "request_url ?c options = request_url a options" "requests ?c = requests a"
    using cfg by (simp_all add: clearCache_def request_url_def)
  from fetchWithRetry_shape [OF c(1,2), of net "request_url a options"]
  obtain res j ds where j: "j \<in> {1, 2, 3}"
    and "fetchWithRetry net (request_url a options) ?c
       = (res, ?c\<lparr>requests := requests ?c @ replicate j (request_url a options),
                 delays := delays ?c @ ds\<rparr>)"
    by blast
  then have "requests (snd (fetchProperties net now options ?c))
               = requests a @ replicate j (request_url a options)"
    using c(3,4,5) by (simp add: fetchProperties_def Let_def split: sum.splits)
  with j show ?thesis by blast
qed

text \<open>
  What does hold of the cache, with the constructor's retry settings: an entry found under
  the key of the options is returned as it is (the same object) and nothing else happens,
  so no request is sent; an entry stays in the cache through any call of
  \<open>fetchProperties\<close>, \<open>fetchProperty\<close> and \<open>fetchPropertyImages\<close>;
  \<open>clearCache\<close> removes every entry; and the next \<open>fetchProperties\<close> after
  \<open>clearCache\<close> sends one round of one to three requests for the URL of the options.
\<close>

lemma cache_hit_and_lifetime:
  assumes cfg: "retryAttempts a = 3" "retryDelay a = 1000"
  shows "(cache a (cacheKey options) = Some v \<longrightarrow> fetchProperties net now options a = (Inr v, a))
       \<and> (cache a k = Some w \<longrightarrow>
             cache (snd (fetchProperties net now options a)) k = Some w
           \<and> cache (snd (fetchProperty net now ident a)) k = Some w
           \<and> cache (snd (fetchPropertyImages net ident a)) k = Some w)
       \<and> cache (clearCache a) k = None
       \<and> (\<exists>j\<in>{1, 2, 3}. requests (snd (fetchProperties net now options (clearCache a)))
              = requests a @ replicate j (request_url a options))"
  using fetchProperties_hit [of a options v net now]
    fetchProperties_keeps_entries [OF cfg, of k w net now options]
    fetchProperty_keeps_entries [OF cfg, of k w net now ident]
    fetchPropertyImages_keeps_entries [OF cfg, of k w net ident]
    fetchProperties_after_clear [OF cfg, of net now options]
  by (simp add: clearCache_def)

text \<open>
  How a listing array gets into the cache at all. When the origin answers with a
  non-empty array, the callback \<open>this.normalizeProperty\<close> runs without its receiver and
  throws on the first record, so the call ends in the catch block like a failed request:
  sample data (or the Error), and nothing stored. Only an empty array is normalized and
  stored.
\<close>

lemma fetchProperties_nonempty_array:
  assumes cfg: "retryAttempts a = 3" "retryDelay a = 1000"
    and miss: "cache a (cacheKey options) = None"
    and resp: "net (length (requests a)) (request_url a options) = Response 200 txt (JArray (x # xs))"
  shows "fetchProperties net now options a =
    (if field options ''useMockData'' \<noteq> Bool False
     then (Inr (Suc (allocated a), Listings (getMockProperties now)),
           a\<lparr>requests := requests a @ [request_url a options], allocated := Suc (allocated a)\<rparr>)
     else (Inl unable_to_load, a\<lparr>requests := requests a @ [request_url a options]\<rparr>))"
  using miss resp
  by (simp add: fetchProperties_def fetchWithRetry_three_attempts [OF cfg] decode_properties_def
      body_of_def normalizeProperty_def)

lemma fetchProperties_empty_array:
  assumes cfg: "retryAttempts a = 3" "retryDelay a = 1000"
    and miss: "cache a (cacheKey options) = None"
    and resp: "net (length (requests a)) (request_url a options) = Response 200 txt (JArray [])"
  shows "fetchProperties net now options a =
     (Inr (Suc (allocated a), Listings []),
      a\<lparr>requests := requests a @ [request_url a options],
        cache := (cache a)(cacheKey options \<mapsto> (Suc (allocated a), Listings [])),
        allocated := Suc (allocated a)\<rparr>)"
  using miss resp
  by (simp add: fetchProperties_def fetchWithRetry_three_attempts [OF cfg] decode_properties_def
      body_of_def Let_def)

text \<open>
  Claim C1 at the failing input. A new API instance, the default options, and an origin
  that answers every request with status 200 and the one-record array of the end-to-end
  scenario. The first call sends one request, ends in the catch block because
  \<open>normalizeProperty\<close> runs without its receiver, returns a new array of sample
  listings and stores nothing. The second call with the same options therefore sends a
  second request and returns another new array: two network calls, two different
  objects, and a cache that is still empty.
\<close>

theorem identical_calls_refetch_after_successful_answer:
  "fst (fetchProperties listing_origin ''2024-01-01T00:00:00.000Z'' [] new_api)
     = Inr (1, Listings (getMockProperties ''2024-01-01T00:00:00.000Z''))
   \<and> requests (snd (fetchProperties listing_origin ''2024-01-01T00:00:00.000Z'' [] new_api))
     = [request_url new_api []]
   \<and> cache (snd (fetchProperties listing_origin ''2024-01-01T00:00:00.000Z'' [] new_api))
     = Map.empty
   \<and> fst (fetchProperties listing_origin ''2024-01-01T00:00:00.000Z'' []
          (snd (fetchProperties listing_origin ''2024-01-01T00:00:00.000Z'' [] new_api)))
     = Inr (2, Listings (getMockProperties ''2024-01-01T00:00:00.000Z''))
   \<and> requests (snd (fetchProperties listing_origin ''2024-01-01T00:00:00.000Z'' []
          (snd (fetchProperties listing_origin ''2024-01-01T00:00:00.000Z'' [] new_api))))
     = [request_url new_api [], request_url new_api []]
   \<and> cache (snd (fetchProperties listing_origin ''2024-01-01T00:00:00.000Z'' []
          (snd (fetchProperties listing_origin ''2024-01-01T00:00:00.000Z'' [] new_api))))
     = Map.empty"
proof -
  let ?t = "''2024-01-01T00:00:00.000Z''"
  have c: "retryAttempts new_api = 3" "retryDelay new_api = 1000"
    and m: "cache new_api (cacheKey []) = None"
    and f: "field [] ''useMockData'' \<noteq> Bool False"
    by (simp_all add: new_api_def field_def)
  have r: "listing_origin (length (requests new_api)) (request_url new_api [])
             = Response 200 ''OK'' (JArray (scenario_record # []))"
    by (simp add: listing_origin_def)
  note first = fetchProperties_nonempty_array [where net = listing_origin and a = new_api
      and options = "[]" and now = ?t, OF c m r]
  define a1 where "a1 = snd (fetchProperties listing_origin ?t [] new_api)"
  have a1: "a1 = new_api\<lparr>requests := [request_url new_api []], allocated := 1\<rparr>"
    unfolding a1_def first using f by (simp add: new_api_def)
  have c1: "retryAttempts a1 = 3" "retryDelay a1 = 1000"
    and m1: "cache a1 (cacheKey []) = None"
    and u1: "request_url a1 [] = request_url new_api []"
    by (simp_all add: a1 new_api_def request_url_def)
  have r1: "listing_origin (length (requests a1)) (request_url a1 [])
             = Response 200 ''OK'' (JArray (scenario_record # []))"
    by (simp add: listing_origin_def)
  note second = fetchProperties_nonempty_array [where net = listing_origin and a = a1
      and options = "[]" and now = ?t, OF c1 m1 r1]
  have one: "fst (fetchProperties listing_origin ?t [] new_api)
               = Inr (1, Listings (getMockProperties ?t))"
    "requests a1 = [request_url new_api []]" "cache a1 = Map.empty"
    unfolding first using f by (simp_all add: a1 new_api_def)
  have two: "fst (fetchProperties listing_origin ?t [] a1) = Inr (2, Listings (getMockProperties ?t))"
    "requests (snd (fetchProperties listing_origin ?t [] a1))
       = [request_url new_api [], request_url new_api []]"
    "cache (snd (fetchProperties listing_origin ?t [] a1)) = Map.empty"
    unfolding second u1 using f by (simp_all add: a1 new_api_def)
  show ?thesis
    using one two unfolding a1_def by simp
qed

lemma build_params_object:
  "build_params options = map (\<lambda>(k, v). (k, to_string v)) (params_object options)"
  by (simp add: build_params_def params_object_def)

lemma serialize_length:
  "ps \<noteq> [] \<Longrightarrow> Suc (length (serialize ps)) = sum_list (map (\<lambda>p. Suc (length (param_string p))) ps)"
  by (induction ps rule: serialize.induct) simp_all

lemma fold_update_nonempty: "A \<noteq> [] \<Longrightarrow> fold (\<lambda>(k, v) obj. AList.update k v obj) xs A \<noteq> []"
  by (induction xs arbitrary: A) (auto simp: split_def)

lemma params_object_nonempty: "params_object options \<noteq> []"
  by (simp add: params_object_def fold_update_nonempty)

lemma key_length:
  "Suc (length (serialize (build_params options))) = sum_list (map entry_length (params_object options))"
proof -
  have "build_params options \<noteq> []"
    by (simp add: build_params_object params_object_nonempty)
  then show ?thesis
    by (simp add: serialize_length build_params_object comp_def entry_length_def [abs_def] split_def)
qed

lemma delete_fold_update:
  "AList.delete u (fold (\<lambda>(k, v) obj. AList.update k v obj) xs A)
     = fold (\<lambda>(k, v) obj. AList.update k v obj) (AList.delete u xs) (AList.delete u A)"
proof (induction xs arbitrary: A)
  case Nil
  then show ?case by simp
next
  case (Cons x xs)
  obtain k v where x: "x = (k, v)" by (cases x)
  show ?case
  proof (cases "k = u")
    case True
    then show ?thesis using Cons.IH [of "AList.update k v A"] x
      by (simp add: AList.delete_update_same)
  next
    case False
    then show ?thesis using Cons.IH [of "AList.update k v A"] x
      by (simp add: AList.delete_update)
  qed
qed

lemma field_delete: "k \<noteq> u \<Longrightarrow> field (AList.delete u options) k = field options k"
  by (simp add: field_def AList.delete_conv)

lemma params_object_delete:
  assumes "u \<noteq> ''limit''" "u \<noteq> ''offset''"
  shows "AList.delete u (params_object options) = params_object (AList.delete u options)"
  using assms
  by (simp add: params_object_def delete_fold_update field_delete)

lemma sum_delete:
  "distinct (map fst L) \<Longrightarrow>
   sum_list (map g L)
     = sum_list (map g (AList.delete u L))
       + (case map_of L u of None \<Rightarrow> 0 | Some v \<Rightarrow> (g (u, v) :: nat))"
proof (induction L)
  case Nil
  then show ?case by simp
next
  case (Cons p L)
  obtain k v where p: "p = (k, v)" by (cases p)
  show ?case
  proof (cases "k = u")
    case True
    then have "map_of L u = None" "AList.delete u L = L"
      using Cons.prems p by (auto simp: map_of_eq_None_iff AList.delete_id image_iff)
    with True p show ?thesis by simp
  next
    case False
    then show ?thesis using Cons p by simp
  qed
qed

lemma distinct_fold_update:
  "distinct (map fst A) \<Longrightarrow> distinct (map fst (fold (\<lambda>(k, v) obj. AList.update k v obj) xs A))"
  by (induction xs arbitrary: A) (auto simp: split_def AList.distinct_update)

lemma params_object_distinct: "distinct (map fst (params_object options))"
  by (simp add: params_object_def distinct_fold_update)

lemma map_of_fold_update:
  "distinct (map fst xs) \<Longrightarrow> map_of xs u = Some v \<Longrightarrow>
   map_of (fold (\<lambda>(k, v) obj. AList.update k v obj) xs A) u = Some v"
proof (induction xs arbitrary: A)
  case Nil
  then show ?case by simp
next
  case (Cons x xs)
  obtain k w where x: "x = (k, w)" by (cases x)
  show ?case
  proof (cases "k = u")
    case True
    then have w: "w = v" and nu: "u \<notin> fst ` set xs" using Cons.prems x by auto
    have keep: "map_of (fold (\<lambda>(k, v) obj. AList.update k v obj) xs B) u = map_of B u" for B
      using nu
    proof (induction xs arbitrary: B)
      case Nil
      then show ?case by simp
    next
      case (Cons y ys)
      then show ?case by (cases y) (auto simp: AList.update_conv')
    qed
    show ?thesis using True w x by (simp add: keep AList.update_conv')
  next
    case False
    then show ?thesis using Cons x by auto
  qed
qed

lemma map_of_fold_update_None:
  "map_of xs u = None \<Longrightarrow>
   map_of (fold (\<lambda>(k, v) obj. AList.update k v obj) xs A) u = map_of A u"
proof (induction xs arbitrary: A)
  case Nil
  then show ?case by simp
next
  case (Cons x xs)
  then show ?case by (cases x) (auto simp: AList.update_conv' split: if_splits)
qed

lemma params_object_flag:
  assumes "distinct (map fst options)" "u \<noteq> ''limit''" "u \<noteq> ''offset''"
  shows "map_of (params_object options) u = map_of options u"
proof (cases "map_of options u")
  case None
  then show ?thesis using assms(2,3) by (simp add: params_object_def map_of_fold_update_None)
next
  case (Some v)
  then show ?thesis using assms(1) by (simp add: params_object_def map_of_fold_update)
qed

lemma key_length_split:
  assumes "distinct (map fst options)" "u \<noteq> ''limit''" "u \<noteq> ''offset''"
  shows "Suc (length (serialize (build_params options)))
      = sum_list (map entry_length (params_object (AList.delete u options)))
        + (case map_of options u of None \<Rightarrow> 0 | Some v \<Rightarrow> entry_length (u, v))"
  using sum_delete [OF params_object_distinct, of entry_length options u]
  by (simp add: key_length params_object_delete [OF assms(2,3)] params_object_flag [OF assms])

lemma flag_entry_length:
  "entry_length (''useMockData'', Bool True) = 17" "entry_length (''useMockData'', Bool False) = 18"
  by code_simp+

lemma flag_weight_differs:
  assumes "boolean_flag o1" "boolean_flag o2"
    and "map_of o1 ''useMockData'' \<noteq> map_of o2 ''useMockData''"
  shows "(case map_of o1 ''useMockData'' of None \<Rightarrow> 0 | Some v \<Rightarrow> entry_length (''useMockData'', v))
       \<noteq> (case map_of o2 ''useMockData'' of None \<Rightarrow> 0 | Some v \<Rightarrow> entry_length (''useMockData'', v))"
proof -
  have e: "entry_length (''useMockData'', Bool b) = (if b then 17 else 18)" for b
    by (cases b) (simp_all add: flag_entry_length)
  show ?thesis
    using assms
    by (auto simp: boolean_flag_def e split: option.splits jsval.splits if_splits)
qed

lemma query_differs:
  assumes d: "distinct (map fst o1)" "distinct (map fst o2)"
    and same: "AList.delete ''useMockData'' o1 = AList.delete ''useMockData'' o2"
    and differ: "map_of o1 ''useMockData'' \<noteq> map_of o2 ''useMockData''"
    and flags: "boolean_flag o1" "boolean_flag o2"
  shows "serialize (build_params o1) \<noteq> serialize (build_params o2)"
proof
  assume eq: "serialize (build_params o1) = serialize (build_params o2)"
  have u: "''useMockData'' \<noteq> ''limit''" "''useMockData'' \<noteq> ''offset''" by simp_all
  from key_length_split [OF d(1) u] key_length_split [OF d(2) u] same eq
  have "(case map_of o1 ''useMockData'' of None \<Rightarrow> 0 | Some v \<Rightarrow> entry_length (''useMockData'', v))
      = (case map_of o2 ''useMockData'' of None \<Rightarrow> 0 | Some v \<Rightarrow> entry_length (''useMockData'', v))"
    by simp
  with flag_weight_differs [OF flags differ] show False by simp
qed

lemma flag_in_params:
  assumes "distinct (map fst options)" "map_of options ''useMockData'' = Some v"
  shows "(''useMockData'', to_string v) \<in> set (build_params options)"
proof -
  have "map_of (params_object options) ''useMockData'' = Some v"
    using assms by (simp add: params_object_flag)
  then have "(''useMockData'', v) \<in> set (params_object options)"
    by (rule map_of_SomeD)
  then show ?thesis
    by (force simp: build_params_object)
qed

lemma fetchProperties_miss_shape:
  assumes cfg: "retryAttempts a = 3" "retryDelay a = 1000"
    and miss: "cache a (cacheKey options) = None"
  shows "\<exists>j\<in>{1, 2, 3}.
           requests (snd (fetchProperties net now options a))
             = requests a @ replicate j (request_url a options)"
    and "retryAttempts (snd (fetchProperties net now options a)) = 3"
    and "retryDelay (snd (fetchProperties net now options a)) = 1000"
    and "baseUrl (snd (fetchProperties net now options a)) = baseUrl a"
    and "k \<noteq> cacheKey options \<Longrightarrow> cache (snd (fetchProperties net now options a)) k = cache a k"
proof -
  from fetchWithRetry_shape [OF cfg, of net "request_url a options"]
  obtain res j ds where j: "j \<in> {1, 2, 3}"
    and f: "fetchWithRetry net (request_url a options) a
       = (res, a\<lparr>requests := requests a @ replicate j (request_url a options),
                 delays := delays a @ ds\<rparr>)"
    by blast
  have "requests (snd (fetchProperties net now options a))
          = requests a @ replicate j (request_url a options)"
    using miss f by (simp add: fetchProperties_def Let_def split: sum.splits)
  with j show "\<exists>j\<in>{1, 2, 3}.
           requests (snd (fetchProperties net now options a))
             = requests a @ replicate j (request_url a options)"
    by blast
  show "retryAttempts (snd (fetchProperties net now options a)) = 3"
    using miss f cfg by (simp add: fetchProperties_def Let_def split: sum.splits)
  show "retryDelay (snd (fetchProperties net now options a)) = 1000"
    using miss f cfg by (simp add: fetchProperties_def Let_def split: sum.splits)
  show "baseUrl (snd (fetchProperties net now options a)) = baseUrl a"
    using miss f by (simp add: fetchProperties_def Let_def split: sum.splits)
  show "cache (snd (fetchProperties net now options a)) k = cache a k" if "k \<noteq> cacheKey options"
    using miss f that by (simp add: fetchProperties_def Let_def split: sum.splits)
qed

lemma field_in_params:
  assumes "distinct (map fst options)" "map_of options k = Some v"
  shows "(k, to_string v) \<in> set (build_params options)"
proof -
  have "map_of (params_object options) k = Some v"
    using assms by (simp add: params_object_def map_of_fold_update)
  then have "(k, v) \<in> set (params_object options)"
    by (rule map_of_SomeD)
  then show ?thesis
    by (force simp: build_params_object)
qed

lemma serialize_contains:
  "p \<in> set ps \<Longrightarrow> \<exists>pre post. serialize ps = pre @ param_string p @ post"
proof (induction ps rule: serialize.induct)
  case 1
  then show ?case by simp
next
  case (2 q)
  then have "serialize [q] = [] @ param_string p @ []" by simp
  then show ?case by blast
next
  case (3 q r rs)
  show ?case
  proof (cases "p = q")
    case True
    then have "serialize (q # r # rs) = [] @ param_string p @ (''&'' @ serialize (r # rs))"
      by simp
    then show ?thesis by blast
  next
    case False
    with 3 obtain pre post where "serialize (r # rs) = pre @ param_string p @ post"
      by auto
    then have "serialize (q # r # rs) = (param_string q @ ''&'' @ pre) @ param_string p @ post"
      by simp
    then show ?thesis by blast
  qed
qed

lemma field_in_key_and_url:
  assumes "distinct (map fst options)" "map_of options k = Some v"
  shows "(k, to_string v) \<in> set (build_params options)"
    and "\<exists>pre post. cacheKey options = pre @ param_string (k, to_string v) @ post"
    and "\<exists>pre post. request_url a options = pre @ param_string (k, to_string v) @ post"
proof -
  show m: "(k, to_string v) \<in> set (build_params options)"
    using assms by (rule field_in_params)
  from serialize_contains [OF m] obtain pre post where
    e: "serialize (build_params options) = pre @ param_string (k, to_string v) @ post"
    by blast
  have "cacheKey options = (''properties_'' @ pre) @ param_string (k, to_string v) @ post"
    using e by (simp add: cacheKey_def)
  then show "\<exists>pre post. cacheKey options = pre @ param_string (k, to_string v) @ post"
    by blast
  have "request_url a options
          = (baseUrl a @ ''/properties?'' @ pre) @ param_string (k, to_string v) @ post"
    using e by (simp add: request_url_def)
  then show "\<exists>pre post. request_url a options = pre @ param_string (k, to_string v) @ post"
    by blast
qed

text \<open>
  Claim C10, as amended. Every field of the options object, \<open>useMockData\<close> included,
  is one of the query parameters under its own name, with the string form of its value,
  and its \<open>name=value\<close> text is part of both the cache key and the request URL. Two
  option objects that differ only in \<open>useMockData\<close>, where the flag is absent,
  \<open>true\<close> or \<open>false\<close>, have different cache keys and different request URLs, and on
  an API instance with an empty cache a call with the first options followed by a call
  with the second sends a request for each of the two URLs.
\<close>

theorem useMockData_in_key_and_query:
  assumes d: "distinct (map fst o1)" "distinct (map fst o2)"
    and same: "AList.delete ''useMockData'' o1 = AList.delete ''useMockData'' o2"
    and differ: "map_of o1 ''useMockData'' \<noteq> map_of o2 ''useMockData''"
    and flags: "boolean_flag o1" "boolean_flag o2"
    and fresh: "retryAttempts a = 3" "retryDelay a = 1000" "cache a = Map.empty"
  shows "(\<forall>k v. map_of o1 k = Some v \<longrightarrow>
             (k, to_string v) \<in> set (build_params o1)
           \<and> (\<exists>pre post. cacheKey o1 = pre @ param_string (k, to_string v) @ post)
           \<and> (\<exists>pre post. request_url a o1 = pre @ param_string (k, to_string v) @ post))
       \<and> (\<forall>k v. map_of o2 k = Some v \<longrightarrow>
             (k, to_string v) \<in> set (build_params o2)
           \<and> (\<exists>pre post. cacheKey o2 = pre @ param_string (k, to_string v) @ post)
           \<and> (\<exists>pre post. request_url a o2 = pre @ param_string (k, to_string v) @ post))
       \<and> cacheKey o1 \<noteq> cacheKey o2
       \<and> request_url a o1 \<noteq> request_url a o2
       \<and> (\<forall>b. map_of o1 ''useMockData'' = Some (Bool b) \<longrightarrow>
             (''useMockData'', if b then ''true'' else ''false'') \<in> set (build_params o1))
       \<and> (\<forall>b. map_of o2 ''useMockData'' = Some (Bool b) \<longrightarrow>
             (''useMockData'', if b then ''true'' else ''false'') \<in> set (build_params o2))
       \<and> request_url a o1 \<in> set (requests (snd (fetchProperties net now o1 a)))
       \<and> request_url a o2
           \<in> set (requests (snd (fetchProperties net now o2 (snd (fetchProperties net now o1 a)))))"
proof -
  have e1: "\<forall>k v. map_of o1 k = Some v \<longrightarrow>
             (k, to_string v) \<in> set (build_params o1)
           \<and> (\<exists>pre post. cacheKey o1 = pre @ param_string (k, to_string v) @ post)
           \<and> (\<exists>pre post. request_url a o1 = pre @ param_string (k, to_string v) @ post)"
    using field_in_key_and_url [OF d(1)] by blast
  have e2: "\<forall>k v. map_of o2 k = Some v \<longrightarrow>
             (k, to_string v) \<in> set (build_params o2)
           \<and> (\<exists>pre post. cacheKey o2 = pre @ param_string (k, to_string v) @ post)
           \<and> (\<exists>pre post. request_url a o2 = pre @ param_string (k, to_string v) @ post)"
    using field_in_key_and_url [OF d(2)] by blast
  note q = query_differs [OF d same differ flags]
  have keys: "cacheKey o1 \<noteq> cacheKey o2" using q by (simp add: cacheKey_def)
  have urls: "request_url a o1 \<noteq> request_url a o2" using q by (simp add: request_url_def)
  have p1: "\<forall>b. map_of o1 ''useMockData'' = Some (Bool b) \<longrightarrow>
             (''useMockData'', if b then ''true'' else ''false'') \<in> set (build_params o1)"
    using flag_in_params [OF d(1)] by fastforce
  have p2: "\<forall>b. map_of o2 ''useMockData'' = Some (Bool b) \<longrightarrow>
             (''useMockData'', if b then ''true'' else ''false'') \<in> set (build_params o2)"
    using flag_in_params [OF d(2)] by fastforce
  define a1 where "a1 = snd (fetchProperties net now o1 a)"
  have miss1: "cache a (cacheKey o1) = None" using fresh(3) by simp
  note s1 = fetchProperties_miss_shape [OF fresh(1,2) miss1, where net = net and now = now, folded a1_def]
  from s1(1) obtain j where "j \<in> {1, 2, 3}"
    and "requests a1 = requests a @ replicate j (request_url a o1)" by blast
  then have r1: "request_url a o1 \<in> set (requests a1)" by auto
  have miss2: "cache a1 (cacheKey o2) = None"
    using s1(5) [of "cacheKey o2"] keys fresh(3) by simp
  note s2 = fetchProperties_miss_shape [OF s1(2,3) miss2, where net = net and now = now]
  from s2(1) obtain j' where "j' \<in> {1, 2, 3}"
    and "requests (snd (fetchProperties net now o2 a1)) = requests a1 @ replicate j' (request_url a1 o2)"
    by blast
  moreover have "request_url a1 o2 = request_url a o2" using s1(4) by (simp add: request_url_def)
  ultimately have r2: "request_url a o2 \<in> set (requests (snd (fetchProperties net now o2 a1)))"
    by auto
  from r1 r2 have r: "request_url a o1 \<in> set (requests (snd (fetchProperties net now o1 a)))"
    "request_url a o2
       \<in> set (requests (snd (fetchProperties net now o2 (snd (fetchProperties net now o1 a)))))"
    unfolding a1_def by simp_all
  show ?thesis
    by (intro conjI) (rule e1 e2 keys urls p1 p2 r)+
qed

text \<open>Witness for C10: \<open>{status: 'sold'}\<close> and \<open>{status: 'sold', useMockData: false}\<close>
  on a new API instance.\<close>

theorem useMockData_in_key_and_query_witness:
  "distinct (map fst sold_options) \<and> distinct (map fst sold_options_no_mock)
   \<and> AList.delete ''useMockData'' sold_options = AList.delete ''useMockData'' sold_options_no_mock
   \<and> map_of sold_options ''useMockData'' \<noteq> map_of sold_options_no_mock ''useMockData''
   \<and> boolean_flag sold_options \<and> boolean_flag sold_options_no_mock
   \<and> retryAttempts new_api = 3 \<and> retryDelay new_api = 1000 \<and> cache new_api = Map.empty
   \<and> (''status'', ''sold'') \<in> set (build_params sold_options)
   \<and> (\<exists>pre post. cacheKey sold_options = pre @ param_string (''status'', ''sold'') @ post)
   \<and> (''useMockData'', ''false'') \<in> set (build_params sold_options_no_mock)
   \<and> (\<exists>pre post. request_url new_api sold_options_no_mock
          = pre @ param_string (''useMockData'', ''false'') @ post)
   \<and> cacheKey sold_options \<noteq> cacheKey sold_options_no_mock
   \<and> request_url new_api sold_options \<noteq> request_url new_api sold_options_no_mock
   \<and> request_url new_api sold_options_no_mock
       \<in> set (requests (snd (fetchProperties unreachable_origin ''2024-01-01T00:00:00.000Z''
             sold_options_no_mock
             (snd (fetchProperties unreachable_origin ''2024-01-01T00:00:00.000Z''
                sold_options new_api)))))"
proof -
  have h: "distinct (map fst sold_options)" "distinct (map fst sold_options_no_mock)"
    "AList.delete ''useMockData'' sold_options = AList.delete ''useMockData'' sold_options_no_mock"
    "map_of sold_options ''useMockData'' \<noteq> map_of sold_options_no_mock ''useMockData''"
    "boolean_flag sold_options" "boolean_flag sold_options_no_mock"
    "retryAttempts new_api = 3" "retryDelay new_api = 1000" "cache new_api = Map.empty"
    by (simp_all add: sold_options_def sold_options_no_mock_def boolean_flag_def new_api_def
        AList.delete_eq)
  have f: "map_of sold_options ''status'' = Some (Str ''sold'')"
    "map_of sold_options_no_mock ''useMockData'' = Some (Bool False)"
    by (simp_all add: sold_options_def sold_options_no_mock_def)
  note t = useMockData_in_key_and_query [OF h, where net = unreachable_origin
      and now = "''2024-01-01T00:00:00.000Z''"]
  from t have every1: "\<forall>k v. map_of sold_options k = Some v \<longrightarrow>
             (k, to_string v) \<in> set (build_params sold_options)
           \<and> (\<exists>pre post. cacheKey sold_options = pre @ param_string (k, to_string v) @ post)
           \<and> (\<exists>pre post. request_url new_api sold_options
                  = pre @ param_string (k, to_string v) @ post)"
    by (rule conjunct1)
  from t have every2: "\<forall>k v. map_of sold_options_no_mock k = Some v \<longrightarrow>
             (k, to_string v) \<in> set (build_params sold_options_no_mock)
           \<and> (\<exists>pre post. cacheKey sold_options_no_mock = pre @ param_string (k, to_string v) @ post)
           \<and> (\<exists>pre post. request_url new_api sold_options_no_mock
                  = pre @ param_string (k, to_string v) @ post)"
    by (rule conjunct1 [OF conjunct2])
  from t have rest: "cacheKey sold_options \<noteq> cacheKey sold_options_no_mock"
    "request_url new_api sold_options \<noteq> request_url new_api sold_options_no_mock"
    "request_url new_api sold_options_no_mock
       \<in> set (requests (snd (fetchProperties unreachable_origin ''2024-01-01T00:00:00.000Z''
             sold_options_no_mock
             (snd (fetchProperties unreachable_origin ''2024-01-01T00:00:00.000Z''
                sold_options new_api)))))"
    by blast+
  from every1 f(1) have s1: "(''status'', ''sold'') \<in> set (build_params sold_options)"
    "\<exists>pre post. cacheKey sold_options = pre @ param_string (''status'', ''sold'') @ post"
    by force+
  from every2 f(2) have s2: "(''useMockData'', ''false'') \<in> set (build_params sold_options_no_mock)"
    "\<exists>pre post. request_url new_api sold_options_no_mock
          = pre @ param_string (''useMockData'', ''false'') @ post"
    by force+
  show ?thesis
    by (intro conjI) (rule h s1 s2 rest)+
qed

text \<open>Counterexample for C10 as stated: \<open>{useMockData: false}\<close> and
  \<open>{useMockData: "false"}\<close> differ only in the flag, and only the first one disables
  the fallback, yet both give the same cache key and the same request URL.\<close>

theorem boolean_and_string_flag_share_key_counterexample:
  "[(''useMockData'', Bool False)] \<noteq> [(''useMockData'', Str ''false'')]
   \<and> AList.delete ''useMockData'' [(''useMockData'', Bool False)]
       = AList.delete ''useMockData'' [(''useMockData'', Str ''false'')]
   \<and> field [(''useMockData'', Bool False)] ''useMockData'' = Bool False
   \<and> field [(''useMockData'', Str ''false'')] ''useMockData'' \<noteq> Bool False
   \<and> cacheKey [(''useMockData'', Bool False)] = cacheKey [(''useMockData'', Str ''false'')]
   \<and> request_url new_api [(''useMockData'', Bool False)]
       = request_url new_api [(''useMockData'', Str ''false'')]"
  by (simp add: cacheKey_def request_url_def build_params_def field_def AList.delete_eq)

section \<open>Verified properties: refresh\<close>

























end
